theory Spec2Isabelle
  imports Complex_Main "HOL-Library.Char_ord" "HOL-Library.List_Lexorder"
begin

section \<open>C doubles\<close>

text \<open>
  A C \<^verbatim>\<open>double\<close> (IEEE 754 binary64) is modelled by its value: a finite double is the
  rational number it denotes, next to the two infinities and NaN.  The two zeros are
  identified (\<open>Fin 0\<close>); the program never divides by a zero and never prints the sign
  of one in any output this development looks at.  Every arithmetic operation computes
  the exact rational result and rounds it with \<open>rnd\<close>: round to nearest, ties to even,
  53 significant bits, exponents from \<open>-1022\<close> to \<open>1023\<close>, gradual underflow, overflow
  to an infinity.
\<close>

datatype double = Fin rat | PInf | NInf | NaN

definition pow2 :: "int \<Rightarrow> rat" where
  "pow2 e = 2 powi e"

function bit_length :: "int \<Rightarrow> int" where
  "bit_length n = (if n \<le> 0 then 0 else 1 + bit_length (n div 2))"
  by pat_completeness auto
termination
  by (relation "measure nat") auto

text \<open>\<open>ilog2 q\<close> is the integer \<open>e\<close> with \<open>2 ^ e \<le> q < 2 ^ (e + 1)\<close>, for \<open>q > 0\<close>.\<close>

definition ilog2 :: "rat \<Rightarrow> int" where
  "ilog2 q = (if 1 \<le> q then bit_length \<lfloor>q\<rfloor> - 1 else - bit_length (\<lceil>1 / q\<rceil> - 1))"

definition round_half_even :: "rat \<Rightarrow> int" where
  "round_half_even q =
     (let f = \<lfloor>q\<rfloor>; d = q - of_int f
      in if d < 1 / 2 then f else if 1 / 2 < d then f + 1 else if even f then f else f + 1)"

definition rnd :: "rat \<Rightarrow> double" where
  "rnd q =
     (if q = 0 then Fin 0
      else let e = max (ilog2 \<bar>q\<bar>) (- 1022);
               ulp = pow2 (e - 52);
               r = of_int (round_half_even (q / ulp)) * ulp
           in if pow2 1024 \<le> r then PInf else if r \<le> - pow2 1024 then NInf else Fin r)"

fun fneg :: "double \<Rightarrow> double" where
  "fneg (Fin a) = Fin (- a)"
| "fneg PInf = NInf"
| "fneg NInf = PInf"
| "fneg NaN = NaN"

fun fadd :: "double \<Rightarrow> double \<Rightarrow> double" where
  "fadd NaN _ = NaN"
| "fadd _ NaN = NaN"
| "fadd (Fin a) (Fin b) = rnd (a + b)"
| "fadd PInf NInf = NaN"
| "fadd NInf PInf = NaN"
| "fadd PInf _ = PInf"
| "fadd NInf _ = NInf"
| "fadd (Fin a) b = b"

definition fsub :: "double \<Rightarrow> double \<Rightarrow> double" where
  "fsub a b = fadd a (fneg b)"

definition signed_inf :: "bool \<Rightarrow> double" where
  "signed_inf positive = (if positive then PInf else NInf)"

fun fmul :: "double \<Rightarrow> double \<Rightarrow> double" where
  "fmul NaN _ = NaN"
| "fmul _ NaN = NaN"
| "fmul (Fin a) (Fin b) = rnd (a * b)"
| "fmul (Fin a) PInf = (if a = 0 then NaN else signed_inf (0 < a))"
| "fmul (Fin a) NInf = (if a = 0 then NaN else signed_inf (a < 0))"
| "fmul PInf (Fin b) = (if b = 0 then NaN else signed_inf (0 < b))"
| "fmul NInf (Fin b) = (if b = 0 then NaN else signed_inf (b < 0))"
| "fmul PInf PInf = PInf"
| "fmul NInf NInf = PInf"
| "fmul PInf NInf = NInf"
| "fmul NInf PInf = NInf"

text \<open>Division: a zero divisor counts as \<open>+0\<close> (see above).\<close>

fun fdiv :: "double \<Rightarrow> double \<Rightarrow> double" where
  "fdiv NaN _ = NaN"
| "fdiv _ NaN = NaN"
| "fdiv (Fin a) (Fin b) =
     (if b = 0 then (if a = 0 then NaN else signed_inf (0 < a)) else rnd (a / b))"
| "fdiv (Fin a) _ = Fin 0"
| "fdiv PInf (Fin b) = signed_inf (0 \<le> b)"
| "fdiv NInf (Fin b) = signed_inf (b < 0)"
| "fdiv _ _ = NaN"

text \<open>The comparison operators of C: each is false as soon as an operand is NaN.\<close>

fun dlt :: "double \<Rightarrow> double \<Rightarrow> bool" where
  "dlt NaN _ = False"
| "dlt _ NaN = False"
| "dlt (Fin a) (Fin b) = (a < b)"
| "dlt _ NInf = False"
| "dlt PInf _ = False"
| "dlt _ _ = True"

definition dgt :: "double \<Rightarrow> double \<Rightarrow> bool" where
  "dgt a b = dlt b a"

fun dle :: "double \<Rightarrow> double \<Rightarrow> bool" where
  "dle NaN _ = False"
| "dle _ NaN = False"
| "dle a b = (\<not> dlt b a)"

definition dge :: "double \<Rightarrow> double \<Rightarrow> bool" where
  "dge a b = dle b a"

text \<open>\<^verbatim>\<open>floor\<close> of math.h: exact, no rounding.\<close>

fun dfloor :: "double \<Rightarrow> double" where
  "dfloor (Fin a) = Fin (of_int \<lfloor>a\<rfloor>)"
| "dfloor d = d"

text \<open>Rounding to the nearest integer, ties away from zero, and truncation.\<close>

definition round_half_away :: "rat \<Rightarrow> int" where
  "round_half_away q = (if 0 \<le> q then \<lfloor>q + 1 / 2\<rfloor> else \<lceil>q - 1 / 2\<rceil>)"

definition trunc_zero :: "rat \<Rightarrow> int" where
  "trunc_zero q = (if 0 \<le> q then \<lfloor>q\<rfloor> else \<lceil>q\<rceil>)"

section \<open>C integers\<close>

text \<open>
  \<^verbatim>\<open>long long\<close> is an \<open>int\<close> in \<open>[-2^63, 2^63)\<close>, \<^verbatim>\<open>size_t\<close> and
  \<^verbatim>\<open>unsigned long long\<close> a \<open>nat\<close> below \<open>2^64\<close>; the conversions between them wrap.
\<close>

definition SIZE_MAX :: nat where
  "SIZE_MAX = 2 ^ 64 - 1"

definition to_llong :: "int \<Rightarrow> int" where
  "to_llong i = (i + 2 ^ 63) mod 2 ^ 64 - 2 ^ 63"

definition to_size_t :: "int \<Rightarrow> nat" where
  "to_size_t i = nat (i mod 2 ^ 64)"

text \<open>
  What a conversion from a double to an integer type yields when the value does not fit
  (or is an infinity or NaN) is left open by the C standard: an unspecified result for
  \<^verbatim>\<open>llround\<close>, undefined behaviour for a cast.  The model takes the value the platform
  produces there as a parameter, and wraps it into the integer type.
\<close>

record platform =
  llround_unfit :: "double \<Rightarrow> int"
  llong_cast_unfit :: "double \<Rightarrow> int"
  size_cast_unfit :: "double \<Rightarrow> int"

definition llround :: "platform \<Rightarrow> double \<Rightarrow> int" where
  "llround pf d =
     (case d of
        Fin q \<Rightarrow>
          (let r = round_half_away q
           in if - (2 ^ 63) \<le> r \<and> r < 2 ^ 63 then r else to_llong (llround_unfit pf d))
      | _ \<Rightarrow> to_llong (llround_unfit pf d))"

definition llong_of_double :: "platform \<Rightarrow> double \<Rightarrow> int" where
  "llong_of_double pf d =
     (case d of
        Fin q \<Rightarrow>
          (let r = trunc_zero q
           in if - (2 ^ 63) \<le> r \<and> r < 2 ^ 63 then r else to_llong (llong_cast_unfit pf d))
      | _ \<Rightarrow> to_llong (llong_cast_unfit pf d))"

definition size_of_double :: "platform \<Rightarrow> double \<Rightarrow> nat" where
  "size_of_double pf d =
     (case d of
        Fin q \<Rightarrow>
          (let r = trunc_zero q
           in if 0 \<le> r \<and> r < 2 ^ 64 then nat r else to_size_t (size_cast_unfit pf d))
      | _ \<Rightarrow> to_size_t (size_cast_unfit pf d))"

definition double_of_size :: "nat \<Rightarrow> double" where
  "double_of_size n = rnd (of_nat n)"

text \<open>
  A platform on which every conversion that does not fit yields \<open>0x8000000000000000\<close>,
  as \<^verbatim>\<open>llround\<close> and the cast to \<^verbatim>\<open>long long\<close> do on x86-64.  It serves as the
  concrete platform of the examples, none of which reaches such a conversion.
\<close>

definition x86_64 :: platform where
  "x86_64 = \<lparr>llround_unfit = (\<lambda>_. - (2 ^ 63)), llong_cast_unfit = (\<lambda>_. - (2 ^ 63)),
     size_cast_unfit = (\<lambda>_. 2 ^ 63)\<rparr>"

section \<open>Command line: \<^verbatim>\<open>parse_args\<close>\<close>

text \<open>
  \<^verbatim>\<open>strtod\<close> belongs to the C library.  The functions below take it as the parameter
  \<open>sd\<close>: applied to the text at the read position it either converts nothing (the end
  pointer is the start pointer), or yields the value, the text that follows the number,
  and whether it set \<^verbatim>\<open>errno\<close> (a range error).
\<close>

datatype strtod_result = No_Conversion | Converted double string bool

type_synonym strtod_fn = "string \<Rightarrow> strtod_result"

text \<open>The test \<^verbatim>\<open>if (errno || end == tok) return false;\<close> after one conversion.\<close>

definition converted_value :: "strtod_result \<Rightarrow> double option" where
  "converted_value r =
     (case r of No_Conversion \<Rightarrow> None | Converted v rest erange \<Rightarrow> if erange then None else Some v)"

record Options =
  xmin :: double
  xmax :: double
  ymin :: double
  ymax :: double
  inc :: double
  find_min :: bool
  path :: "string option"
  out :: "string option"
  tcl_round :: bool

datatype error =
    Help_Shown
  | Invalid_Region string
  | Missing_Value string
  | Invalid_Value string string
  | Increment_Not_Positive
  | Unknown_Option string
  | Unexpected_Argument string
  | Missing_Input_Path
  | Invalid_Bounds
  | Grid_Dimensions_Invalid
  | Grid_Too_Large
  | Out_Of_Memory
  | Allocation_Size_Wraps
  | Cannot_Open_Input
  | Cannot_Open_Output

text \<open>The tokens \<^verbatim>\<open>strtok_r\<close> returns one after the other: the non-empty runs between delimiters.\<close>

fun split_tokens :: "char \<Rightarrow> string \<Rightarrow> string \<Rightarrow> string list" where
  "split_tokens d acc [] = (if acc = [] then [] else [rev acc])"
| "split_tokens d acc (c # cs) =
     (if c = d then (if acc = [] then split_tokens d [] cs else rev acc # split_tokens d [] cs)
      else split_tokens d (c # acc) cs)"

definition parse_region :: "strtod_fn \<Rightarrow> string \<Rightarrow> (double \<times> double \<times> double \<times> double) option" where
  "parse_region sd s =
     (if s = [] then None
      else
        let p = (if take 2 s = ''-R'' \<or> take 2 s = ''-r'' then drop 2 s
                 else if take 1 s = ''R'' \<or> take 1 s = ''r'' then drop 1 s
                 else s)
        in if 256 \<le> length p then None
           else
             (case split_tokens (CHR ''/'') [] p of
                t1 # t2 # t3 # t4 # _ \<Rightarrow>
                  (case converted_value (sd t1) of None \<Rightarrow> None | Some xmin_v \<Rightarrow>
                  (case converted_value (sd t2) of None \<Rightarrow> None | Some xmax_v \<Rightarrow>
                  (case converted_value (sd t3) of None \<Rightarrow> None | Some ymin_v \<Rightarrow>
                  (case converted_value (sd t4) of None \<Rightarrow> None | Some ymax_v \<Rightarrow>
                     Some (xmin_v, xmax_v, ymin_v, ymax_v)))))
              | _ \<Rightarrow> None))"

definition parse_double_arg :: "strtod_fn \<Rightarrow> string \<Rightarrow> string \<Rightarrow> error + double" where
  "parse_double_arg sd flag next =
     (case converted_value (sd next) of None \<Rightarrow> Inl (Invalid_Value flag next) | Some v \<Rightarrow> Inr v)"

text \<open>The body of the \<^verbatim>\<open>-I\<close> branch once the value text is known.\<close>

definition set_increment :: "strtod_fn \<Rightarrow> Options \<Rightarrow> string \<Rightarrow> error + Options" where
  "set_increment sd opt val =
     (case parse_double_arg sd ''-I'' val of
        Inl e \<Rightarrow> Inl e
      | Inr v \<Rightarrow> if dle v (Fin 0) then Inl Increment_Not_Positive else Inr (opt\<lparr>inc := v\<rparr>))"

text \<open>The \<^verbatim>\<open>for\<close> loop over \<^verbatim>\<open>argv[1..]\<close>; an option that takes a value consumes the next argument.\<close>

function parse_loop :: "strtod_fn \<Rightarrow> Options \<Rightarrow> string list \<Rightarrow> error + Options" where
  "parse_loop sd opt [] = Inr opt"
| "parse_loop sd opt (a # rest) =
     (if a = ''-h'' \<or> a = ''--help'' then Inl Help_Shown
      else if take 2 a = ''-R'' \<or> take 1 a = ''R'' then
        (case parse_region sd a of
           None \<Rightarrow> Inl (Invalid_Region a)
         | Some (x0, x1, y0, y1) \<Rightarrow>
             parse_loop sd (opt\<lparr>xmin := x0, xmax := x1, ymin := y0, ymax := y1\<rparr>) rest)
      else if take 2 a = ''-I'' then
        (if drop 2 a \<noteq> [] then
           (case set_increment sd opt (drop 2 a) of
              Inl e \<Rightarrow> Inl e
            | Inr opt' \<Rightarrow> parse_loop sd opt' rest)
         else
           (case rest of
              [] \<Rightarrow> Inl (Missing_Value ''-I'')
            | val # rest' \<Rightarrow>
                (case set_increment sd opt val of
                   Inl e \<Rightarrow> Inl e
                 | Inr opt' \<Rightarrow> parse_loop sd opt' rest')))
      else if a = ''-PATH'' \<or> a = ''-path'' then
        (case rest of
           [] \<Rightarrow> Inl (Missing_Value a)
         | val # rest' \<Rightarrow> parse_loop sd (opt\<lparr>path := Some val\<rparr>) rest')
      else if a = ''-MAX'' then parse_loop sd (opt\<lparr>find_min := False\<rparr>) rest
      else if a = ''-o'' then
        (case rest of
           [] \<Rightarrow> Inl (Missing_Value ''-o'')
         | val # rest' \<Rightarrow> parse_loop sd (opt\<lparr>out := Some val\<rparr>) rest')
      else if a = ''--tclround'' then parse_loop sd (opt\<lparr>tcl_round := True\<rparr>) rest
      else if take 1 a = ''-'' then Inl (Unknown_Option a)
      else if path opt = None then parse_loop sd (opt\<lparr>path := Some a\<rparr>) rest
      else Inl (Unexpected_Argument a))"
  by pat_completeness auto
termination
  by (relation "measure (\<lambda>(sd, opt, args). length args)") auto

definition initial_options :: Options where
  "initial_options =
     \<lparr>xmin = Fin 0, xmax = Fin 0, ymin = Fin 0, ymax = Fin 0, inc = Fin 1, find_min = True,
      path = None, out = None, tcl_round = False\<rparr>"

text \<open>\<open>args\<close> is \<^verbatim>\<open>argv[1], ..., argv[argc - 1]\<close>.\<close>

definition parse_args :: "strtod_fn \<Rightarrow> string list \<Rightarrow> error + Options" where
  "parse_args sd args =
     (case parse_loop sd initial_options args of
        Inl e \<Rightarrow> Inl e
      | Inr opt \<Rightarrow>
          (case path opt of
             None \<Rightarrow> Inl Missing_Input_Path
           | Some file \<Rightarrow>
               if \<not> (dgt (xmax opt) (xmin opt) \<and> dgt (ymax opt) (ymin opt)) then Inl Invalid_Bounds
               else if out opt = None then
                 Inr (opt\<lparr>out := Some (file @ (if find_min opt then ''.min'' else ''.max''))\<rparr>)
               else Inr opt))"

section \<open>The grid: \<^verbatim>\<open>main\<close>\<close>

definition safe_mul_size_t :: "nat \<Rightarrow> nat \<Rightarrow> error + nat" where
  "safe_mul_size_t a b =
     (if a = 0 \<or> b = 0 then Inr 0
      else if SIZE_MAX div b < a then Inl Grid_Too_Large
      else Inr (a * b))"

text \<open>\<^verbatim>\<open>floor(((hi - lo) / inc) + 0.5) + 1.0\<close>, the expression of \<^verbatim>\<open>nx_d\<close> and \<^verbatim>\<open>ny_d\<close>.\<close>

definition node_count :: "double \<Rightarrow> double \<Rightarrow> double \<Rightarrow> double" where
  "node_count lo hi step = fadd (dfloor (fadd (fdiv (fsub hi lo) step) (Fin (1 / 2)))) (Fin 1)"

definition grid_dims :: "platform \<Rightarrow> Options \<Rightarrow> error + nat \<times> nat" where
  "grid_dims pf opt =
     (let nx_d = node_count (xmin opt) (xmax opt) (inc opt);
          ny_d = node_count (ymin opt) (ymax opt) (inc opt)
      in if \<not> (dge nx_d (Fin 1) \<and> dge ny_d (Fin 1)) then Inl Grid_Dimensions_Invalid
         else Inr (size_of_double pf nx_d, size_of_double pf ny_d))"

text \<open>The two arrays \<^verbatim>\<open>grid\<close> and \<^verbatim>\<open>hit\<close>, of \<^verbatim>\<open>ncell\<close> elements each.\<close>

record lattice =
  grid :: "double list"
  hit :: "bool list"

definition init_lattice :: "bool \<Rightarrow> nat \<Rightarrow> lattice" where
  "init_lattice fm ncell =
     \<lparr>grid = replicate ncell (if fm then PInf else NInf), hit = replicate ncell False\<rparr>"

text \<open>
  One axis of the mapping of a point to a cell: \<^verbatim>\<open>llround\<close> by default, the emulation of
  Tcl's \<^verbatim>\<open>findClosestValue\<close> under \<^verbatim>\<open>--tclround\<close>; \<open>eps\<close> is the literal \<^verbatim>\<open>1e-12\<close>.
\<close>

definition eps :: double where
  "eps = rnd (1 / 10 ^ 12)"

definition snap :: "platform \<Rightarrow> bool \<Rightarrow> double \<Rightarrow> double \<Rightarrow> double \<Rightarrow> int" where
  "snap pf tcl v lo step =
     (if \<not> tcl then llround pf (fdiv (fsub v lo) step)
      else
        let t = fdiv (fsub v lo) step;
            f = dfloor t;
            frac = fsub t f
        in llong_of_double pf (if dgt frac (fadd (Fin (1 / 2)) eps) then fadd f (Fin 1) else f))"

text \<open>\<^verbatim>\<open>if (i < 0) i = 0; else if ((unsigned long long)i >= n) i = (long long)n - 1;\<close>\<close>

definition clamp_index :: "int \<Rightarrow> nat \<Rightarrow> int" where
  "clamp_index i n = (if i < 0 then 0 else if n \<le> to_size_t i then to_llong (int n) - 1 else i)"

definition cell_index :: "platform \<Rightarrow> Options \<Rightarrow> nat \<Rightarrow> nat \<Rightarrow> double \<Rightarrow> double \<Rightarrow> nat \<times> nat" where
  "cell_index pf opt nx ny x y =
     (to_size_t (clamp_index (snap pf (tcl_round opt) x (xmin opt) (inc opt)) nx),
      to_size_t (clamp_index (snap pf (tcl_round opt) y (ymin opt) (inc opt)) ny))"

text \<open>\<^verbatim>\<open>idx = ix + nx * iy\<close> in \<^verbatim>\<open>size_t\<close> arithmetic.\<close>

definition flat_index :: "nat \<Rightarrow> nat \<Rightarrow> nat \<Rightarrow> nat" where
  "flat_index nx ix iy = (ix + nx * iy) mod 2 ^ 64"

definition update_cell :: "bool \<Rightarrow> lattice \<Rightarrow> nat \<Rightarrow> double \<Rightarrow> lattice" where
  "update_cell fm st idx z =
     \<lparr>grid =
        (if fm then (if \<not> hit st ! idx \<or> dlt z (grid st ! idx) then (grid st)[idx := z] else grid st)
         else (if \<not> hit st ! idx \<or> dgt z (grid st ! idx) then (grid st)[idx := z] else grid st)),
      hit = (hit st)[idx := True]\<rparr>"

type_synonym point = "double \<times> double \<times> double"

definition process_point :: "platform \<Rightarrow> Options \<Rightarrow> nat \<Rightarrow> nat \<Rightarrow> lattice \<Rightarrow> point \<Rightarrow> lattice" where
  "process_point pf opt nx ny st p =
     (case p of (x, y, z) \<Rightarrow>
        (case cell_index pf opt nx ny x y of (ix, iy) \<Rightarrow>
           update_cell (find_min opt) st (flat_index nx ix iy) z))"

text \<open>The cell a point is written to, and the z values a list of points sends to one cell.\<close>

definition cell_of :: "platform \<Rightarrow> Options \<Rightarrow> nat \<Rightarrow> nat \<Rightarrow> point \<Rightarrow> nat" where
  "cell_of pf opt nx ny p =
     (case p of (x, y, z) \<Rightarrow>
        (case cell_index pf opt nx ny x y of (ix, iy) \<Rightarrow> flat_index nx ix iy))"

definition routed_z :: "platform \<Rightarrow> Options \<Rightarrow> nat \<Rightarrow> nat \<Rightarrow> nat \<Rightarrow> point list \<Rightarrow> double list" where
  "routed_z pf opt nx ny idx ps =
     map (\<lambda>p. snd (snd p)) (filter (\<lambda>p. cell_of pf opt nx ny p = idx) ps)"

text \<open>
  One buffer filled by \<^verbatim>\<open>fgets\<close>: leading blanks and tabs are skipped, an empty rest, a
  newline or a \<^verbatim>\<open>#\<close> ends the line; then three conversions, each continuing where the
  last one stopped.  \<open>None\<close> is \<^verbatim>\<open>continue\<close>.
\<close>

definition parse_line :: "strtod_fn \<Rightarrow> string \<Rightarrow> point option" where
  "parse_line sd line =
     (let p = dropWhile (\<lambda>c. c = CHR '' '' \<or> c = CHR 0x09) line
      in if p = [] \<or> hd p = CHR 0x0A \<or> hd p = CHR ''#'' then None
         else
           (case sd p of
              No_Conversion \<Rightarrow> None
            | Converted x p1 e1 \<Rightarrow>
                if e1 then None
                else
                  (case sd p1 of
                     No_Conversion \<Rightarrow> None
                   | Converted y p2 e2 \<Rightarrow>
                       if e2 then None
                       else
                         (case sd p2 of
                            No_Conversion \<Rightarrow> None
                          | Converted z p3 e3 \<Rightarrow> if e3 then None else Some (x, y, z)))))"

definition process_line ::
  "platform \<Rightarrow> strtod_fn \<Rightarrow> Options \<Rightarrow> nat \<Rightarrow> nat \<Rightarrow> lattice \<Rightarrow> string \<Rightarrow> lattice" where
  "process_line pf sd opt nx ny st line =
     (case parse_line sd line of None \<Rightarrow> st | Some p \<Rightarrow> process_point pf opt nx ny st p)"

text \<open>
  The buffers \<^verbatim>\<open>fgets(line, 16384, fin)\<close> returns for a file: each ends after a newline or
  after 16383 characters.  \<open>k\<close> is the room left in the buffer, \<open>acc\<close> the buffer so far,
  reversed.
\<close>

fun fgets_all :: "nat \<Rightarrow> string \<Rightarrow> string \<Rightarrow> string list" where
  "fgets_all k acc [] = (if acc = [] then [] else [rev acc])"
| "fgets_all k acc (c # cs) =
     (if c = CHR 0x0A \<or> k \<le> 1 then rev (c # acc) # fgets_all 16383 [] cs
      else fgets_all (k - 1) (c # acc) cs)"

text \<open>The output loop, rows outermost; a row of the result is one line \<open>gx gy gz\<close>.\<close>

definition write_results :: "Options \<Rightarrow> nat \<Rightarrow> nat \<Rightarrow> lattice \<Rightarrow> point list" where
  "write_results opt nx ny st =
     concat (map (\<lambda>iy.
       concat (map (\<lambda>ix.
         let idx = flat_index nx ix iy
         in if \<not> hit st ! idx then []
            else [(fadd (xmin opt) (fmul (double_of_size ix) (inc opt)),
                   fadd (ymin opt) (fmul (double_of_size iy) (inc opt)),
                   grid st ! idx)])
         [0..<nx]))
       [0..<ny])"

text \<open>The cells the output loop prints, as \<open>(ix, iy, z)\<close>.\<close>

definition occupied_cells :: "nat \<Rightarrow> nat \<Rightarrow> lattice \<Rightarrow> (nat \<times> nat \<times> double) list" where
  "occupied_cells nx ny st =
     concat (map (\<lambda>iy.
       concat (map (\<lambda>ix.
         let idx = flat_index nx ix iy
         in if \<not> hit st ! idx then [] else [(ix, iy, grid st ! idx)])
         [0..<nx]))
       [0..<ny])"

text \<open>
  What the program finds around it: whether an allocation of so many bytes succeeds, the
  content of a file that can be opened for reading, and whether a file can be opened for
  writing.
\<close>

record env =
  malloc_ok :: "nat \<Rightarrow> bool"
  file_content :: "string \<Rightarrow> string option"
  writable :: "string \<Rightarrow> bool"

text \<open>The read loop over the points already parsed, and over the buffers of the file.\<close>

definition process_points ::
  "platform \<Rightarrow> Options \<Rightarrow> nat \<Rightarrow> nat \<Rightarrow> lattice \<Rightarrow> point list \<Rightarrow> lattice" where
  "process_points pf opt nx ny st ps = foldl (process_point pf opt nx ny) st ps"

definition process_lines ::
  "platform \<Rightarrow> strtod_fn \<Rightarrow> Options \<Rightarrow> nat \<Rightarrow> nat \<Rightarrow> lattice \<Rightarrow> string list \<Rightarrow> lattice" where
  "process_lines pf sd opt nx ny st ls = foldl (process_line pf sd opt nx ny) st ls"

text \<open>
  \<^verbatim>\<open>main\<close>, from the arguments to the rows written to the output file.  The size passed to
  \<^verbatim>\<open>malloc\<close> is \<^verbatim>\<open>ncell * sizeof(double)\<close>; where that product wraps, the array is shorter
  than \<^verbatim>\<open>ncell\<close> and the program's accesses are out of bounds: the model stops there.
\<close>

definition main :: "platform \<Rightarrow> strtod_fn \<Rightarrow> env \<Rightarrow> string list \<Rightarrow> error + string \<times> point list" where
  "main pf sd ev args =
     (case parse_args sd args of
        Inl e \<Rightarrow> Inl e
      | Inr opt \<Rightarrow>
          (case grid_dims pf opt of
             Inl e \<Rightarrow> Inl e
           | Inr (nx, ny) \<Rightarrow>
               (case safe_mul_size_t nx ny of
                  Inl e \<Rightarrow> Inl e
                | Inr ncell \<Rightarrow>
                    if SIZE_MAX < ncell * 8 then Inl Allocation_Size_Wraps
                    else if \<not> malloc_ok ev (ncell * 8) then Inl Out_Of_Memory
                    else if \<not> malloc_ok ev ncell then Inl Out_Of_Memory
                    else
                      (case path opt of
                         None \<Rightarrow> Inl Missing_Input_Path
                       | Some file \<Rightarrow>
                           (case file_content ev file of
                              None \<Rightarrow> Inl Cannot_Open_Input
                            | Some text \<Rightarrow>
                                (case out opt of
                                   None \<Rightarrow> Inl Cannot_Open_Output
                                 | Some target \<Rightarrow>
                                     if \<not> writable ev target then Inl Cannot_Open_Output
                                     else
                                       Inr (target,
                                         write_results opt nx ny
                                           (process_lines pf sd opt nx ny
                                              (init_lattice (find_min opt) ncell)
                                              (fgets_all 16383 [] text)))))))))"

section \<open>The Tcl script: the update of a cell\<close>

text \<open>
  \<^verbatim>\<open>blockminmax.tcl\<close> keeps in \<^verbatim>\<open>ar(x,y)\<close> the z token of an input line, a string.
  \<^verbatim>\<open>expr\<close> compares two operands as numbers when both are numbers, and as strings
  otherwise; \<open>num\<close> is Tcl's reading of a string as a number.
\<close>

definition tcl_less :: "(string \<Rightarrow> double option) \<Rightarrow> string \<Rightarrow> string \<Rightarrow> bool" where
  "tcl_less num a b =
     (case num a of
        None \<Rightarrow> a < b
      | Some u \<Rightarrow> (case num b of None \<Rightarrow> a < b | Some v \<Rightarrow> dlt u v))"

definition tcl_greater :: "(string \<Rightarrow> double option) \<Rightarrow> string \<Rightarrow> string \<Rightarrow> bool" where
  "tcl_greater num a b = tcl_less num b a"

text \<open>Lines 154 to 172 of the script: \<open>k\<close> is the key \<^verbatim>\<open>$x,$y\<close>, \<open>z\<close> the token read.\<close>

definition tcl_update ::
  "(string \<Rightarrow> double option) \<Rightarrow> bool \<Rightarrow> bool \<Rightarrow> ('k \<Rightarrow> string) \<Rightarrow> 'k \<Rightarrow> string \<Rightarrow> 'k \<Rightarrow> string" where
  "tcl_update num fix_min fm ar k z =
     (if fix_min then
        (if fm then (if tcl_less num z (ar k) then ar(k := z) else ar)
         else (if tcl_greater num z (ar k) then ar(k := z) else ar))
      else
        (if fm \<and> tcl_less num z (ar k) then ar(k := z)
         else if tcl_greater num z (ar k) then ar(k := z)
         else ar))"

text \<open>The array before the first line is read: every cell holds \<^verbatim>\<open>$preset\<close>.\<close>

definition tcl_preset :: "bool \<Rightarrow> string \<Rightarrow> string" where
  "tcl_preset fm k = (if fm then ''1e10'' else ''-1e10'')"

section \<open>A model of \<^verbatim>\<open>strtod\<close>\<close>

text \<open>
  \<^verbatim>\<open>strtod\<close> in the C locale, after ISO C 7.22.1.3 and the GNU C library: white space is
  skipped; the longest text of the form of a decimal or hexadecimal floating constant,
  of \<^verbatim>\<open>inf\<close>, \<^verbatim>\<open>infinity\<close> or \<^verbatim>\<open>nan\<close> (with an optional parenthesised tag), with an
  optional sign, is converted; the value is rounded correctly; \<^verbatim>\<open>errno\<close> is set when the
  value overflows, or is below the normal range and not exact.
\<close>

definition is_space :: "char \<Rightarrow> bool" where
  "is_space c = (c \<in> set [CHR '' '', CHR 0x09, CHR 0x0A, CHR 0x0B, CHR 0x0C, CHR 0x0D])"

definition to_lower :: "char \<Rightarrow> char" where
  "to_lower c =
     (let n = (of_char c :: nat) in if 65 \<le> n \<and> n \<le> 90 then char_of (n + 32) else c)"

definition digit_of :: "char \<Rightarrow> nat option" where
  "digit_of c = (let n = (of_char c :: nat) in if 48 \<le> n \<and> n \<le> 57 then Some (n - 48) else None)"

definition hex_digit_of :: "char \<Rightarrow> nat option" where
  "hex_digit_of c =
     (let n = (of_char (to_lower c) :: nat)
      in if 48 \<le> n \<and> n \<le> 57 then Some (n - 48)
         else if 97 \<le> n \<and> n \<le> 102 then Some (n - 87)
         else None)"

fun span_digits :: "(char \<Rightarrow> nat option) \<Rightarrow> string \<Rightarrow> nat list \<times> string" where
  "span_digits dv [] = ([], [])"
| "span_digits dv (c # cs) =
     (case dv c of
        None \<Rightarrow> ([], c # cs)
      | Some d \<Rightarrow> (case span_digits dv cs of (ds, rest) \<Rightarrow> (d # ds, rest)))"

definition nat_of_digits :: "nat \<Rightarrow> nat list \<Rightarrow> nat" where
  "nat_of_digits base ds = foldl (\<lambda>a d. base * a + d) 0 ds"

text \<open>Digits with an optional point among them, one digit at least.\<close>

definition scan_mantissa :: "(char \<Rightarrow> nat option) \<Rightarrow> string \<Rightarrow> (nat list \<times> nat list \<times> string) option" where
  "scan_mantissa dv s =
     (case span_digits dv s of (ip, r1) \<Rightarrow>
        (case r1 of
           [] \<Rightarrow> if ip = [] then None else Some (ip, [], r1)
         | c # r2 \<Rightarrow>
             if c = CHR ''.'' then
               (case span_digits dv r2 of (fp, r3) \<Rightarrow>
                  if ip = [] \<and> fp = [] then None else Some (ip, fp, r3))
             else if ip = [] then None
             else Some (ip, [], r1)))"

definition scan_sign :: "string \<Rightarrow> bool \<times> string" where
  "scan_sign s =
     (case s of
        [] \<Rightarrow> (False, s)
      | c # r \<Rightarrow> if c = CHR ''-'' then (True, r) else if c = CHR ''+'' then (False, r) else (False, s))"

text \<open>An exponent part after the marker \<open>m\<close> (\<^verbatim>\<open>e\<close> or \<^verbatim>\<open>p\<close>); without digits nothing is consumed.\<close>

definition scan_exponent :: "char \<Rightarrow> string \<Rightarrow> int \<times> string" where
  "scan_exponent m s =
     (case s of
        [] \<Rightarrow> (0, s)
      | c # r \<Rightarrow>
          if to_lower c \<noteq> m then (0, s)
          else
            (case scan_sign r of (neg, r') \<Rightarrow>
               (case span_digits digit_of r' of (ds, rest) \<Rightarrow>
                  if ds = [] then (0, s)
                  else ((if neg then - int (nat_of_digits 10 ds) else int (nat_of_digits 10 ds)), rest))))"

datatype scanned = Exact rat | Infinite | Not_A_Number

definition scan_radix :: "(char \<Rightarrow> nat option) \<Rightarrow> nat \<Rightarrow> char \<Rightarrow> rat \<Rightarrow> string \<Rightarrow> (scanned \<times> string) option" where
  "scan_radix dv base m ebase s =
     (case scan_mantissa dv s of
        None \<Rightarrow> None
      | Some (ip, fp, r) \<Rightarrow>
          (case scan_exponent m r of (e, rest) \<Rightarrow>
             Some (Exact (of_nat (nat_of_digits base (ip @ fp)) / of_nat base ^ length fp
                          * ebase powi e), rest)))"

definition is_tag_char :: "char \<Rightarrow> bool" where
  "is_tag_char c =
     (let n = (of_char (to_lower c) :: nat)
      in (48 \<le> n \<and> n \<le> 57) \<or> (97 \<le> n \<and> n \<le> 122) \<or> n = 95)"

definition scan_special :: "string \<Rightarrow> (scanned \<times> string) option" where
  "scan_special s =
     (if map to_lower (take 8 s) = ''infinity'' then Some (Infinite, drop 8 s)
      else if map to_lower (take 3 s) = ''inf'' then Some (Infinite, drop 3 s)
      else if map to_lower (take 3 s) = ''nan'' then
        (let r = drop 3 s
         in case r of
              [] \<Rightarrow> Some (Not_A_Number, r)
            | c # t \<Rightarrow>
                if c = CHR ''('' \<and> take 1 (dropWhile is_tag_char t) = '')''
                then Some (Not_A_Number, drop 1 (dropWhile is_tag_char t))
                else Some (Not_A_Number, r))
      else None)"

definition scan_number :: "string \<Rightarrow> (scanned \<times> string) option" where
  "scan_number s =
     (case (if map to_lower (take 2 s) = ''0x''
            then scan_radix hex_digit_of 16 (CHR ''p'') 2 (drop 2 s) else None) of
        Some r \<Rightarrow> Some r
      | None \<Rightarrow>
          (case scan_radix digit_of 10 (CHR ''e'') 10 s of
             Some r \<Rightarrow> Some r
           | None \<Rightarrow> scan_special s))"

definition strtod :: strtod_fn where
  "strtod s =
     (case scan_sign (dropWhile is_space s) of (neg, s') \<Rightarrow>
        (case scan_number s' of
           None \<Rightarrow> No_Conversion
         | Some (Infinite, rest) \<Rightarrow> Converted (if neg then NInf else PInf) rest False
         | Some (Not_A_Number, rest) \<Rightarrow> Converted NaN rest False
         | Some (Exact q, rest) \<Rightarrow>
             (let v = (if neg then - q else q); r = rnd v
              in Converted r rest
                   (r = PInf \<or> r = NInf \<or> (v \<noteq> 0 \<and> \<bar>v\<bar> < pow2 (- 1022) \<and> r \<noteq> Fin v)))))"

text \<open>Tcl's reading of a decimal token as a number.\<close>

definition tcl_number :: "string \<Rightarrow> double option" where
  "tcl_number s =
     (case strtod s of
        No_Conversion \<Rightarrow> None
      | Converted v rest erange \<Rightarrow> if rest = [] \<and> \<not> erange then Some v else None)"

section \<open>Tokens of a line, as the specification counts them\<close>

text \<open>
  The specification (section 6) speaks of the whitespace-delimited tokens of a line.  The
  program never computes them; \<open>spec_tokens\<close> follows the specification's words, to
  compare them with what \<open>parse_line\<close> accepts.
\<close>

fun spec_tokens_from :: "string \<Rightarrow> string \<Rightarrow> string list" where
  "spec_tokens_from acc [] = (if acc = [] then [] else [rev acc])"
| "spec_tokens_from acc (c # cs) =
     (if is_space c
      then (if acc = [] then spec_tokens_from [] cs else rev acc # spec_tokens_from [] cs)
      else spec_tokens_from (c # acc) cs)"

definition spec_tokens :: "string \<Rightarrow> string list" where
  "spec_tokens line = spec_tokens_from [] line"

section \<open>The test of the repository\<close>

text \<open>
  \<^verbatim>\<open>test_blockminmax.sh\<close>: the data set, the region \<^verbatim>\<open>-R0/2/0/2\<close> and the increment
  \<^verbatim>\<open>-I1\<close> of its three runs, and an environment in which the data set is the only file.
\<close>

definition test_data :: string where
  "test_data =
     ''-0.49 -0.49 5'' @ [CHR 0x0A] @
     ''0.5   0.5   10'' @ [CHR 0x0A] @
     ''2.0   2.0   9'' @ [CHR 0x0A] @
     ''1.49  0.49  7'' @ [CHR 0x0A]"

definition test_env :: env where
  "test_env =
     \<lparr>malloc_ok = (\<lambda>n. True),
      file_content = (\<lambda>name. if name = ''testdata_small.xyz'' then Some test_data else None),
      writable = (\<lambda>name. True)\<rparr>"

text \<open>
  The four points of the data set, as the doubles \<^verbatim>\<open>strtod\<close> reads, under the names the
  script gives them: A lies outside the region, less than half a cell from node (0,0); B
  is the exact tie between four nodes; C is a node; D lies near node (1,0).
\<close>

definition point_A :: point where
  "point_A =
     (Fin (- (2206763817411543 / 4503599627370496)),
      Fin (- (2206763817411543 / 4503599627370496)), Fin 5)"

definition point_B :: point where
  "point_B = (Fin (1 / 2), Fin (1 / 2), Fin 10)"

definition point_C :: point where
  "point_C = (Fin 2, Fin 2, Fin 9)"

definition point_D :: point where
  "point_D =
     (Fin (6710363444782039 / 4503599627370496),
      Fin (2206763817411543 / 4503599627370496), Fin 7)"

definition test_points :: "point list" where
  "test_points = [point_A, point_B, point_C, point_D]"

definition test_args_default :: "string list" where
  "test_args_default =
     [''-R0/2/0/2'', ''-I1'', ''-PATH'', ''testdata_small.xyz'', ''-o'', ''out_default.min'']"

definition test_args_tcllike :: "string list" where
  "test_args_tcllike =
     [''-R0/2/0/2'', ''-I1'', ''-PATH'', ''testdata_small.xyz'', ''--tclround'', ''--tclfmt'',
      ''-o'', ''out_tcllike.min'']"

definition test_args_gmt :: "string list" where
  "test_args_gmt =
     [''-R0/2/0/2'', ''-I1'', ''-PATH'', ''testdata_small.xyz'', ''--gmtbin'', ''-o'', ''out_gmt.min'']"

text \<open>The options of the default run and of a \<^verbatim>\<open>--tclround\<close> run on the same region.\<close>

definition test_options :: "bool \<Rightarrow> Options" where
  "test_options tcl =
     \<lparr>xmin = Fin 0, xmax = Fin 2, ymin = Fin 0, ymax = Fin 2, inc = Fin 1, find_min = True,
      path = Some ''testdata_small.xyz'', out = Some ''out_default.min'', tcl_round = tcl\<rparr>"

section \<open>Powers of two and rounding\<close>

declare bit_length.simps [simp del]

lemma pow2_pos [simp]: "0 < pow2 e"
  by (simp add: pow2_def)

lemma pow2_nonneg [simp]: "0 \<le> pow2 e"
  using pow2_pos [of e] by linarith

lemma pow2_nonzero [simp]: "pow2 e \<noteq> 0"
  using pow2_pos [of e] by linarith

lemma pow2_add: "pow2 (a + b) = pow2 a * pow2 b"
  by (simp add: pow2_def power_int_add)

lemma pow2_strict_mono: "a < b \<Longrightarrow> pow2 a < pow2 b"
  by (simp add: pow2_def power_int_strict_increasing)

lemma pow2_mono: "a \<le> b \<Longrightarrow> pow2 a \<le> pow2 b"
  using pow2_strict_mono [of a b] by (cases "a = b") auto

lemma pow2_nat: "0 \<le> e \<Longrightarrow> pow2 e = 2 ^ nat e"
  by (simp add: pow2_def power_int_def)

lemma pow2_Suc: "pow2 (e + 1) = 2 * pow2 e"
  using pow2_add [of e 1] by (simp add: pow2_def)

lemma bit_length_bounds:
  "0 < n \<Longrightarrow> 0 < bit_length n \<and> 2 ^ nat (bit_length n - 1) \<le> n \<and> n < 2 ^ nat (bit_length n)"
proof (induction n rule: bit_length.induct)
  case (1 n)
  show ?case
  proof (cases "n = 1")
    case True
    have "bit_length 1 = 1" by (simp add: bit_length.simps [of 1] bit_length.simps [of 0])
    with True show ?thesis by simp
  next
    case False
    with "1.prems" have pos: "0 < n div 2" by simp
    let ?b = "bit_length (n div 2)"
    from "1.IH" [OF _ pos] "1.prems"
    have IH: "0 < ?b" "2 ^ nat (?b - 1) \<le> n div 2" "n div 2 < 2 ^ nat ?b" by auto
    have bl: "bit_length n = ?b + 1" using "1.prems" by (subst bit_length.simps) simp
    have e1: "(2::int) ^ nat ?b = 2 * 2 ^ nat (?b - 1)"
      using IH(1) by (metis Suc_nat_eq_nat_zadd1 add.commute diff_add_cancel diff_ge_0_iff_ge int_one_le_iff_zero_less power_Suc)
    have e2: "(2::int) ^ nat (?b + 1) = 2 * 2 ^ nat ?b"
      using IH(1) by (simp add: nat_add_distrib)
    have "2 ^ nat ?b \<le> n" using IH(2) e1 by linarith
    moreover have "n < 2 ^ nat (?b + 1)" using IH(3) e2 by linarith
    ultimately show ?thesis using IH(1) bl by simp
  qed
qed

lemma bit_length_pow2:
  assumes "0 < n"
  shows "pow2 (bit_length n - 1) \<le> of_int n" "of_int n < pow2 (bit_length n)"
proof -
  from bit_length_bounds [OF assms]
  have b: "0 < bit_length n" "2 ^ nat (bit_length n - 1) \<le> n" "n < 2 ^ nat (bit_length n)" by auto
  have "(of_int (2 ^ nat (bit_length n - 1)) :: rat) \<le> of_int n" using b(2) by (simp only: of_int_le_iff)
  then show "pow2 (bit_length n - 1) \<le> of_int n" using b(1) by (simp add: pow2_nat)
  have "(of_int n :: rat) < of_int (2 ^ nat (bit_length n))" using b(3) by (simp only: of_int_less_iff)
  then show "of_int n < pow2 (bit_length n)" using b(1) by (simp add: pow2_nat)
qed

lemma ilog2_bounds:
  assumes "0 < q"
  shows "pow2 (ilog2 q) \<le> q \<and> q < pow2 (ilog2 q + 1)"
proof (cases "1 \<le> q")
  case True
  then have n: "0 < \<lfloor>q\<rfloor>" by simp
  have il: "ilog2 q = bit_length \<lfloor>q\<rfloor> - 1" using True by (simp add: ilog2_def)
  have "pow2 (bit_length \<lfloor>q\<rfloor> - 1) \<le> of_int \<lfloor>q\<rfloor>" using bit_length_pow2(1) [OF n] .
  also have "\<dots> \<le> q" by simp
  finally have lo: "pow2 (ilog2 q) \<le> q" by (simp add: il)
  have "\<lfloor>q\<rfloor> < 2 ^ nat (bit_length \<lfloor>q\<rfloor>)" using bit_length_bounds [OF n] by simp
  then have "\<lfloor>q\<rfloor> + 1 \<le> 2 ^ nat (bit_length \<lfloor>q\<rfloor>)" by simp
  then have "(of_int (\<lfloor>q\<rfloor> + 1) :: rat) \<le> of_int (2 ^ nat (bit_length \<lfloor>q\<rfloor>))" by (simp only: of_int_le_iff)
  moreover have "q < of_int (\<lfloor>q\<rfloor> + 1)" by linarith
  ultimately have "q < of_int (2 ^ nat (bit_length \<lfloor>q\<rfloor>))" by linarith
  moreover have "0 \<le> bit_length \<lfloor>q\<rfloor>" using bit_length_bounds [OF n] by simp
  ultimately have "q < pow2 (bit_length \<lfloor>q\<rfloor>)" by (simp add: pow2_nat)
  then show ?thesis using lo by (simp add: il)
next
  case False
  let ?r = "1 / q"
  let ?n = "\<lceil>?r\<rceil> - 1"
  from False assms have r1: "1 < ?r" by simp
  then have n: "0 < ?n" by linarith
  have il: "ilog2 q = - bit_length ?n" using False by (simp add: ilog2_def)
  have nr: "of_int ?n < ?r" "?r \<le> of_int ?n + 1" by linarith+
  note b = bit_length_pow2 [OF n]
  let ?P = "pow2 (bit_length ?n - 1)"
  let ?P' = "pow2 (- bit_length ?n + 1)"
  let ?Q = "pow2 (bit_length ?n)"
  let ?Q' = "pow2 (- bit_length ?n)"
  have pp: "?P * ?P' = 1" using pow2_add [of "bit_length ?n - 1" "- bit_length ?n + 1"]
    by (simp add: pow2_def)
  have qq: "?Q * ?Q' = 1" using pow2_add [of "bit_length ?n" "- bit_length ?n"]
    by (simp add: pow2_def)
  have "?P < ?r" using b(1) nr(1) by linarith
  then have qp: "q * ?P < 1" using assms by (simp add: field_simps)
  have "q = (q * ?P) * ?P'" using pp by (simp add: mult.assoc)
  also have "\<dots> < 1 * ?P'" by (rule mult_strict_right_mono) (use qp in simp_all)
  finally have hi: "q < ?P'" by simp
  have "?r \<le> of_int ?n + 1" using nr(2) .
  moreover have "(of_int ?n :: rat) + 1 \<le> ?Q"
  proof -
    have "?n < 2 ^ nat (bit_length ?n)" using bit_length_bounds [OF n] by simp
    then have "?n + 1 \<le> 2 ^ nat (bit_length ?n)" by simp
    then have "(of_int (?n + 1) :: rat) \<le> of_int (2 ^ nat (bit_length ?n))" by (simp only: of_int_le_iff)
    moreover have "0 \<le> bit_length ?n" using bit_length_bounds [OF n] by simp
    ultimately show ?thesis by (simp add: pow2_nat)
  qed
  ultimately have "?r \<le> ?Q" by linarith
  then have qq1: "1 \<le> q * ?Q" using assms by (simp add: field_simps)
  have "1 * ?Q' \<le> (q * ?Q) * ?Q'" by (rule mult_right_mono) (use qq1 in simp_all)
  also have "\<dots> = q" using qq by (simp add: mult.assoc)
  finally have lo: "?Q' \<le> q" by simp
  show ?thesis using lo hi by (simp add: il)
qed

lemma ilog2_unique:
  assumes "0 < q" "pow2 e \<le> q" "q < pow2 (e + 1)"
  shows "ilog2 q = e"
proof (rule ccontr)
  assume ne: "ilog2 q \<noteq> e"
  note b = ilog2_bounds [OF assms(1)]
  show False
  proof (cases "ilog2 q < e")
    case True
    then have "pow2 (ilog2 q + 1) \<le> pow2 e" by (intro pow2_mono) simp
    with b assms(2) show False by linarith
  next
    case False
    with ne have "pow2 (e + 1) \<le> pow2 (ilog2 q)" by (intro pow2_mono) simp
    with b assms(3) show False by linarith
  qed
qed

lemma round_half_even_near:
  assumes "\<bar>q - of_int m\<bar> < 1 / 2"
  shows "round_half_even q = m"
proof -
  have f: "of_int \<lfloor>q\<rfloor> \<le> q" "q < of_int \<lfloor>q\<rfloor> + 1" by linarith+
  from assms have m: "of_int m - 1 / 2 < q" "q < of_int m + 1 / 2" by linarith+
  show ?thesis
  proof (cases "q - of_int \<lfloor>q\<rfloor> < 1 / 2")
    case True
    have "(of_int m :: rat) < of_int \<lfloor>q\<rfloor> + 1" using m f True by linarith
    then have "m < \<lfloor>q\<rfloor> + 1" by (metis of_int_1 of_int_add of_int_less_iff)
    moreover have "(of_int \<lfloor>q\<rfloor> :: rat) < of_int m + 1" using m f by linarith
    then have "\<lfloor>q\<rfloor> < m + 1" by (metis of_int_1 of_int_add of_int_less_iff)
    ultimately have "\<lfloor>q\<rfloor> = m" by linarith
    then show ?thesis using True by (simp add: round_half_even_def Let_def)
  next
    case False
    have ne: "q - of_int \<lfloor>q\<rfloor> \<noteq> 1 / 2"
    proof
      assume h: "q - of_int \<lfloor>q\<rfloor> = 1 / 2"
      have "(of_int m :: rat) < of_int \<lfloor>q\<rfloor> + 1" using m h by linarith
      then have a: "m < \<lfloor>q\<rfloor> + 1" by (metis of_int_1 of_int_add of_int_less_iff)
      have "(of_int \<lfloor>q\<rfloor> :: rat) < of_int m" using m h by linarith
      then have "\<lfloor>q\<rfloor> < m" by (simp only: of_int_less_iff)
      with a show False by linarith
    qed
    with False have gt: "1 / 2 < q - of_int \<lfloor>q\<rfloor>" by linarith
    have "(of_int m :: rat) < of_int \<lfloor>q\<rfloor> + 2" using m f by linarith
    then have "(of_int m :: rat) < of_int (\<lfloor>q\<rfloor> + 2)" by simp
    then have a: "m < \<lfloor>q\<rfloor> + 2" by (simp only: of_int_less_iff)
    have "(of_int \<lfloor>q\<rfloor> :: rat) < of_int m" using m gt by linarith
    then have "\<lfloor>q\<rfloor> < m" by (simp only: of_int_less_iff)
    with a have "\<lfloor>q\<rfloor> + 1 = m" by linarith
    then show ?thesis using False gt by (auto simp: round_half_even_def Let_def)
  qed
qed

lemma round_half_even_int [simp]: "round_half_even (of_int m) = m"
  by (rule round_half_even_near) simp

lemma round_half_even_tie:
  assumes "q = of_int m + 1 / 2"
  shows "round_half_even q = (if even m then m else m + 1)"
proof -
  have "\<lfloor>q\<rfloor> = m" unfolding assms by linarith
  then show ?thesis using assms by (simp add: round_half_even_def Let_def)
qed

lemma rnd_nearI:
  assumes "pow2 e \<le> \<bar>q\<bar>" "\<bar>q\<bar> < pow2 (e + 1)" "- 1022 \<le> e"
    and "r = of_int m * pow2 (e - 52)" "\<bar>q - r\<bar> < pow2 (e - 53)" "\<bar>r\<bar> < pow2 1024"
  shows "rnd q = Fin r"
proof -
  have "0 < \<bar>q\<bar>" using assms(1) pow2_pos [of e] by linarith
  then have q0: "q \<noteq> 0" by auto
  have "0 < \<bar>q\<bar>" using q0 by simp
  then have il: "ilog2 \<bar>q\<bar> = e" using assms(1,2) by (rule ilog2_unique)
  have ulp: "pow2 (e - 52) = 2 * pow2 (e - 53)" using pow2_Suc [of "e - 53"] by simp
  have u0: "pow2 (e - 52) \<noteq> 0" using pow2_pos [of "e - 52"] by linarith
  have "q / pow2 (e - 52) - of_int m = (q - r) / pow2 (e - 52)"
    unfolding assms(4) using u0 by (simp add: diff_divide_distrib)
  then have "\<bar>q / pow2 (e - 52) - of_int m\<bar> = \<bar>q - r\<bar> / pow2 (e - 52)"
    by (simp add: abs_divide)
  also have "\<dots> < pow2 (e - 53) / pow2 (e - 52)"
    using assms(5) by (simp add: divide_strict_right_mono)
  also have "\<dots> = 1 / 2" by (simp add: ulp)
  finally have "round_half_even (q / pow2 (e - 52)) = m" by (rule round_half_even_near)
  then show ?thesis using q0 il assms(3,4,6)
    by (simp add: rnd_def Let_def max_def abs_if split: if_splits)
qed

lemma rnd_exactI:
  assumes "q = of_int m * pow2 k" "\<bar>m\<bar> < 2 ^ 53" "- 1074 \<le> k" "k \<le> 971"
  shows "rnd q = Fin q"
proof (cases "m = 0")
  case True
  then show ?thesis using assms(1) by (simp add: rnd_def)
next
  case False
  moreover have "pow2 k \<noteq> 0" using pow2_pos [of k] by linarith
  ultimately have q0: "q \<noteq> 0" using assms(1) by simp
  then have qpos: "0 < \<bar>q\<bar>" by simp
  let ?e = "max (ilog2 \<bar>q\<bar>) (- 1022)"
  have aq: "\<bar>q\<bar> = of_int \<bar>m\<bar> * pow2 k" unfolding assms(1) by (simp add: abs_mult)
  have "(of_int \<bar>m\<bar> :: rat) < of_int (2 ^ 53)" using assms(2) by (simp only: of_int_less_iff)
  then have "(of_int \<bar>m\<bar> :: rat) < pow2 53" by (simp add: pow2_def)
  then have "\<bar>q\<bar> < pow2 53 * pow2 k" unfolding aq by (simp add: mult_strict_right_mono)
  then have lt: "\<bar>q\<bar> < pow2 (53 + k)" by (simp add: pow2_add)
  have "pow2 (ilog2 \<bar>q\<bar>) \<le> \<bar>q\<bar>" using ilog2_bounds [OF qpos] by simp
  with lt have "pow2 (ilog2 \<bar>q\<bar>) < pow2 (53 + k)" by linarith
  then have "ilog2 \<bar>q\<bar> < 53 + k"
    using pow2_mono [of "53 + k" "ilog2 \<bar>q\<bar>"] by (cases "ilog2 \<bar>q\<bar> < 53 + k") auto
  then have d: "0 \<le> k - (?e - 52)" using assms(3) by (simp add: max_def)
  let ?d = "k - (?e - 52)"
  have "pow2 k = pow2 ?d * pow2 (?e - 52)" using pow2_add [of ?d "?e - 52"] by simp
  then have qd: "q = of_int m * pow2 ?d * pow2 (?e - 52)" unfolding assms(1) by simp
  have "pow2 ?d = of_int (2 ^ nat ?d)" using d by (simp add: pow2_nat)
  then have md: "of_int m * pow2 ?d = (of_int (m * 2 ^ nat ?d) :: rat)" by simp
  have u0: "pow2 (?e - 52) \<noteq> 0" using pow2_pos [of "?e - 52"] by linarith
  have qn: "q = of_int (m * 2 ^ nat ?d) * pow2 (?e - 52)" using qd md by simp
  then have "q / pow2 (?e - 52) = of_int (m * 2 ^ nat ?d)" using u0
    by (metis nonzero_mult_div_cancel_right)
  then have "round_half_even (q / pow2 (?e - 52)) = m * 2 ^ nat ?d"
    by (simp only: round_half_even_int)
  then have rr: "of_int (round_half_even (q / pow2 (?e - 52))) * pow2 (?e - 52) = q"
    using qn by simp
  have "pow2 (53 + k) \<le> pow2 1024" using assms(4) by (intro pow2_mono) simp
  with lt have "\<bar>q\<bar> < pow2 1024" by linarith
  then have "\<not> pow2 1024 \<le> q" "\<not> q \<le> - pow2 1024" by linarith+
  then show ?thesis using q0 rr by (simp add: rnd_def Let_def)
qed


section \<open>The order of doubles and the update of a cell\<close>

lemma dle_refl: "d \<noteq> NaN \<Longrightarrow> dle d d"
  by (cases d) auto

lemma dlt_dle_trans: "dlt a b \<Longrightarrow> dle b c \<Longrightarrow> dle a c"
  by (cases a; cases b; cases c) auto

lemma dle_dlt_trans: "dle a b \<Longrightarrow> dlt b c \<Longrightarrow> dle a c"
  by (cases a; cases b; cases c) auto

lemma not_dlt_dle: "a \<noteq> NaN \<Longrightarrow> b \<noteq> NaN \<Longrightarrow> \<not> dlt a b \<Longrightarrow> dle b a"
  by (cases a; cases b) auto

lemma dlt_NaN_right [simp]: "dlt a NaN = False"
  by (cases a) auto

lemma process_point_cell_of:
  "process_point pf opt nx ny st p = update_cell (find_min opt) st (cell_of pf opt nx ny p) (snd (snd p))"
  by (simp add: process_point_def cell_of_def split: prod.splits)

lemma process_points_snoc:
  "process_points pf opt nx ny st (ps @ [p]) = process_point pf opt nx ny (process_points pf opt nx ny st ps) p"
  by (simp add: process_points_def)

lemma length_update_cell [simp]:
  "length (grid (update_cell fm st idx z)) = length (grid st)"
  "length (hit (update_cell fm st idx z)) = length (hit st)"
  by (simp_all add: update_cell_def)

lemma update_cell_other:
  "j \<noteq> idx \<Longrightarrow> grid (update_cell fm st idx z) ! j = grid st ! j \<and> hit (update_cell fm st idx z) ! j = hit st ! j"
  by (simp add: update_cell_def)

lemma update_cell_same:
  "idx < length (grid st) \<Longrightarrow> idx < length (hit st) \<Longrightarrow>
   hit (update_cell fm st idx z) ! idx \<and>
   grid (update_cell fm st idx z) ! idx =
     (if \<not> hit st ! idx \<or> (if fm then dlt z (grid st ! idx) else dgt z (grid st ! idx)) then z else grid st ! idx)"
  by (simp add: update_cell_def)

lemma cell_after_points:
  assumes "idx < ncell"
  shows "NaN \<notin> set (routed_z pf opt nx ny idx ps) \<Longrightarrow>
     length (grid (process_points pf opt nx ny (init_lattice fm0 ncell) ps)) = ncell \<and>
     length (hit (process_points pf opt nx ny (init_lattice fm0 ncell) ps)) = ncell \<and>
     (hit (process_points pf opt nx ny (init_lattice fm0 ncell) ps) ! idx \<longleftrightarrow> routed_z pf opt nx ny idx ps \<noteq> []) \<and>
     (routed_z pf opt nx ny idx ps \<noteq> [] \<longrightarrow>
        grid (process_points pf opt nx ny (init_lattice fm0 ncell) ps) ! idx \<noteq> NaN \<and>
        (\<forall>z \<in> set (routed_z pf opt nx ny idx ps).
           if find_min opt then dle (grid (process_points pf opt nx ny (init_lattice fm0 ncell) ps) ! idx) z
           else dge (grid (process_points pf opt nx ny (init_lattice fm0 ncell) ps) ! idx) z))"
proof (induction ps rule: rev_induct)
  case Nil
  then show ?case using assms by (simp add: process_points_def init_lattice_def routed_z_def)
next
  case (snoc p ps)
  let ?st = "process_points pf opt nx ny (init_lattice fm0 ncell) ps"
  let ?st' = "process_points pf opt nx ny (init_lattice fm0 ncell) (ps @ [p])"
  let ?z = "snd (snd p)"
  have st': "?st' = update_cell (find_min opt) ?st (cell_of pf opt nx ny p) ?z"
    by (simp add: process_points_snoc process_point_cell_of)
  have nn: "NaN \<notin> set (routed_z pf opt nx ny idx ps)"
    using snoc.prems by (auto simp: routed_z_def)
  note IH = snoc.IH [OF nn]
  have len': "length (grid ?st') = ncell" "length (hit ?st') = ncell"
    using IH by (simp_all add: st')
  show ?case
  proof (cases "cell_of pf opt nx ny p = idx")
    case False
    then have r: "routed_z pf opt nx ny idx (ps @ [p]) = routed_z pf opt nx ny idx ps"
      by (simp add: routed_z_def)
    from False have "grid ?st' ! idx = grid ?st ! idx" "hit ?st' ! idx = hit ?st ! idx"
      unfolding st' using update_cell_other [of idx "cell_of pf opt nx ny p"] by auto
    then show ?thesis using IH len' unfolding r by simp
  next
    case True
    then have r: "routed_z pf opt nx ny idx (ps @ [p]) = routed_z pf opt nx ny idx ps @ [?z]"
      by (simp add: routed_z_def)
    have zn: "?z \<noteq> NaN" using snoc.prems unfolding r by auto
    have len: "idx < length (grid ?st)" "idx < length (hit ?st)" using IH assms by auto
    note same = update_cell_same [OF len, of "find_min opt" ?z]
    have st'': "?st' = update_cell (find_min opt) ?st idx ?z" using st' True by simp
    show ?thesis
    proof (cases "routed_z pf opt nx ny idx ps = []")
      case True
      then have "\<not> hit ?st ! idx" using IH by simp
      then have "grid ?st' ! idx = ?z" "hit ?st' ! idx" using same unfolding st'' by auto
      then show ?thesis using len' zn True unfolding r
        by (auto simp: dle_refl dge_def)
    next
      case False
      then have h: "hit ?st ! idx" and cn: "grid ?st ! idx \<noteq> NaN" using IH by auto
      show ?thesis
      proof (cases "find_min opt")
        case fm: True
        from False fm IH have b: "\<forall>z\<in>set (routed_z pf opt nx ny idx ps). dle (grid ?st ! idx) z" by auto
        show ?thesis
        proof (cases "dlt ?z (grid ?st ! idx)")
          case True
          then have g: "grid ?st' ! idx = ?z" "hit ?st' ! idx" using same fm unfolding st'' by auto
          from True b have "\<forall>z\<in>set (routed_z pf opt nx ny idx ps). dle ?z z"
            using dlt_dle_trans by blast
          then show ?thesis using g zn fm len' unfolding r by (auto simp: dle_refl)
        next
          case nl: False
          then have g: "grid ?st' ! idx = grid ?st ! idx" "hit ?st' ! idx" using same fm h unfolding st'' by auto
          have "dle (grid ?st ! idx) ?z" using not_dlt_dle [OF zn cn nl] .
          then show ?thesis using g b cn fm len' unfolding r by auto
        qed
      next
        case fm: False
        from False fm IH have b: "\<forall>z\<in>set (routed_z pf opt nx ny idx ps). dle z (grid ?st ! idx)"
          by (auto simp: dge_def)
        show ?thesis
        proof (cases "dlt (grid ?st ! idx) ?z")
          case True
          then have g: "grid ?st' ! idx = ?z" "hit ?st' ! idx" using same fm unfolding st'' by (auto simp: dgt_def)
          from True b have "\<forall>z\<in>set (routed_z pf opt nx ny idx ps). dle z ?z"
            using dle_dlt_trans by blast
          then show ?thesis using g zn fm len' unfolding r by (auto simp: dle_refl dge_def)
        next
          case nl: False
          then have g: "grid ?st' ! idx = grid ?st ! idx" "hit ?st' ! idx" using same fm h unfolding st'' by (auto simp: dgt_def)
          have "dle ?z (grid ?st ! idx)" using not_dlt_dle [OF cn zn nl] .
          then show ?thesis using g b cn fm len' unfolding r by (auto simp: dge_def)
        qed
      qed
    qed
  qed
qed

section \<open>Evaluation of floors and ceilings of rational numerals\<close>

lemma floor_rat_divide_numeral [simp]:
  "\<lfloor>numeral a / numeral b :: rat\<rfloor> = numeral a div numeral b"
  using floor_divide_of_int_eq [of "numeral a" "numeral b", where ?'a = rat] by simp

lemma floor_rat_one_divide_numeral [simp]:
  "\<lfloor>1 / numeral b :: rat\<rfloor> = 1 div numeral b"
  using floor_divide_of_int_eq [of 1 "numeral b", where ?'a = rat] by simp

lemma floor_rat_minus_divide_numeral [simp]:
  "\<lfloor>- (numeral a / numeral b) :: rat\<rfloor> = - numeral a div numeral b"
  using floor_divide_of_int_eq [of "- numeral a" "numeral b", where ?'a = rat] by simp

lemma floor_rat_minus_one_divide_numeral [simp]:
  "\<lfloor>- (1 / numeral b) :: rat\<rfloor> = - 1 div numeral b"
  using floor_divide_of_int_eq [of "- 1" "numeral b", where ?'a = rat] by simp

lemma ceiling_rat_divide_numeral [simp]:
  "\<lceil>numeral a / numeral b :: rat\<rceil> = - (- numeral a div numeral b)"
  unfolding ceiling_def by simp

lemma ceiling_rat_one_divide_numeral [simp]:
  "\<lceil>1 / numeral b :: rat\<rceil> = - (- 1 div numeral b)"
  unfolding ceiling_def by simp

lemma ceiling_rat_minus_divide_numeral [simp]:
  "\<lceil>- (numeral a / numeral b) :: rat\<rceil> = - (numeral a div numeral b)"
  unfolding ceiling_def by simp

lemma ceiling_rat_minus_one_divide_numeral [simp]:
  "\<lceil>- (1 / numeral b) :: rat\<rceil> = - (1 div numeral b)"
  unfolding ceiling_def by simp

section \<open>The cell of a point\<close>

lemma to_llong_range: "- (2 ^ 63) \<le> to_llong i \<and> to_llong i < 2 ^ 63"
proof -
  have "0 \<le> (i + 2 ^ 63) mod 2 ^ 64" "(i + 2 ^ 63) mod 2 ^ 64 < 2 ^ 64" by simp_all
  then show ?thesis by (simp add: to_llong_def)
qed

lemma llround_range: "- (2 ^ 63) \<le> llround pf d \<and> llround pf d < 2 ^ 63"
  using to_llong_range [of "llround_unfit pf d"]
  by (auto simp: llround_def Let_def split: double.splits)

lemma llong_of_double_range: "- (2 ^ 63) \<le> llong_of_double pf d \<and> llong_of_double pf d < 2 ^ 63"
  using to_llong_range [of "llong_cast_unfit pf d"]
  by (auto simp: llong_of_double_def Let_def split: double.splits)

lemma snap_range: "- (2 ^ 63) \<le> snap pf tcl v lo step \<and> snap pf tcl v lo step < 2 ^ 63"
  unfolding snap_def Let_def using llround_range llong_of_double_range by simp

lemma clamp_index_in_range:
  assumes "0 < n" "- (2 ^ 63) \<le> i" "i < 2 ^ 63"
  shows "to_size_t (clamp_index i n) < n"
proof (cases "i < 0")
  case True
  then show ?thesis using assms(1) by (simp add: clamp_index_def to_size_t_def)
next
  case False
  then have i: "0 \<le> i" "i < 2 ^ 64" using assms(3) by auto
  then have ts: "to_size_t i = nat i" by (simp add: to_size_t_def)
  show ?thesis
  proof (cases "n \<le> nat i")
    case True
    then have n: "int n < 2 ^ 63" using assms(3) i by linarith
    then have "to_llong (int n) = int n" by (simp add: to_llong_def)
    moreover have "to_size_t (int n - 1) = n - 1" using assms(1) n by (simp add: to_size_t_def nat_diff_distrib)
    ultimately show ?thesis using True False ts assms(1) by (simp add: clamp_index_def)
  next
    case False
    then show ?thesis using \<open>\<not> i < 0\<close> ts by (simp add: clamp_index_def)
  qed
qed

lemma cell_index_lt:
  assumes "0 < nx" "0 < ny"
  shows "fst (cell_index pf opt nx ny x y) < nx \<and> snd (cell_index pf opt nx ny x y) < ny"
  using assms snap_range clamp_index_in_range by (simp add: cell_index_def)

lemma flat_index_lt:
  assumes "ix < nx" "iy < ny" "nx * ny \<le> SIZE_MAX"
  shows "flat_index nx ix iy < nx * ny"
proof -
  have "ix + nx * iy < nx + nx * iy" using assms(1) by simp
  also have "\<dots> = nx * Suc iy" by simp
  also have "\<dots> \<le> nx * ny" using assms(2) by (intro mult_le_mono2) simp
  finally have lt: "ix + nx * iy < nx * ny" .
  then have "ix + nx * iy < 2 ^ 64" using assms(3) by (simp add: SIZE_MAX_def)
  then show ?thesis using lt by (simp add: flat_index_def)
qed

lemma rnd_0 [simp]: "rnd 0 = Fin 0"
  by (simp add: rnd_def)

lemma rnd_numeral: "(numeral n :: int) < 2 ^ 53 \<Longrightarrow> rnd (numeral n) = Fin (numeral n)"
  by (rule rnd_exactI [where m = "numeral n" and k = 0]) (simp_all add: pow2_def)

lemma rnd_1 [simp]: "rnd 1 = Fin 1"
  by (rule rnd_exactI [where m = 1 and k = 0]) (simp_all add: pow2_def)

lemma test_options_fields [simp]:
  "xmin (test_options tcl) = Fin 0" "xmax (test_options tcl) = Fin 2"
  "ymin (test_options tcl) = Fin 0" "ymax (test_options tcl) = Fin 2"
  "inc (test_options tcl) = Fin 1" "find_min (test_options tcl) = True"
  "tcl_round (test_options tcl) = tcl" "path (test_options tcl) = Some ''testdata_small.xyz''"
  "out (test_options tcl) = Some ''out_default.min''"
  by (simp_all add: test_options_def)

lemma llround_Fin:
  "- (2 ^ 63) \<le> round_half_away q \<Longrightarrow> round_half_away q < 2 ^ 63 \<Longrightarrow>
   llround pf (Fin q) = round_half_away q"
  by (simp add: llround_def)

lemma llong_of_double_Fin:
  "- (2 ^ 63) \<le> trunc_zero q \<Longrightarrow> trunc_zero q < 2 ^ 63 \<Longrightarrow>
   llong_of_double pf (Fin q) = trunc_zero q"
  by (simp add: llong_of_double_def)

lemma snap_origin: "snap pf False (Fin 0) (Fin 0) (Fin 1) = 0"
proof -
  have "fdiv (fsub (Fin 0) (Fin 0)) (Fin 1) = Fin 0" by (simp add: fsub_def)
  moreover have "round_half_away 0 = 0" by (simp add: round_half_away_def)
  ultimately show ?thesis by (simp add: snap_def llround_Fin)
qed

lemma cell_of_origin:
  "cell_of pf (test_options False) 3 3 (Fin 0, Fin 0, z) = 0"
proof -
  have "to_size_t (clamp_index 0 3) = 0" by (simp add: clamp_index_def to_size_t_def)
  then have "cell_index pf (test_options False) 3 3 (Fin 0) (Fin 0) = (0, 0)"
    by (simp add: cell_index_def snap_origin)
  then show ?thesis by (simp add: cell_of_def flat_index_def)
qed

lemma rnd_neg_numeral:
  "(numeral n :: int) < 2 ^ 53 \<Longrightarrow> rnd (- numeral n) = Fin (- numeral n)"
  by (rule rnd_exactI [where m = "- numeral n" and k = 0]) (simp_all add: pow2_def)

lemma cell_index_far:
  "cell_index pf (test_options False) 3 3 (Fin 1000000) (Fin (- 1000000)) = (2, 0)"
proof -
  have "fdiv (fsub (Fin 1000000) (Fin 0)) (Fin 1) = Fin 1000000"
    by (simp add: fsub_def rnd_numeral)
  moreover have "round_half_away 1000000 = 1000000" by (simp add: round_half_away_def)
  ultimately have x: "snap pf False (Fin 1000000) (Fin 0) (Fin 1) = 1000000"
    by (simp add: snap_def llround_Fin)
  have "fdiv (fsub (Fin (- 1000000)) (Fin 0)) (Fin 1) = Fin (- 1000000)"
    by (simp add: fsub_def rnd_neg_numeral)
  moreover have "round_half_away (- 1000000) = - 1000000" by (simp add: round_half_away_def)
  ultimately have y: "snap pf False (Fin (- 1000000)) (Fin 0) (Fin 1) = - 1000000"
    by (simp add: snap_def llround_Fin)
  have "to_size_t (clamp_index 1000000 3) = 2" "to_size_t (clamp_index (- 1000000) 3) = 0"
    by (simp_all add: clamp_index_def to_size_t_def to_llong_def)
  then show ?thesis by (simp add: cell_index_def x y)
qed

text \<open>
  C4.  Under either clamped addressing strategy (\<open>tcl_round opt\<close> false or true) every
  point, however far outside the region, finite or not, and whatever the platform yields
  for a conversion that does not fit, is mapped to a cell index with \<open>ix < nx\<close> and
  \<open>iy < ny\<close> on every lattice with \<open>nx, ny \<ge> 1\<close>; where the cell count fits
  \<^verbatim>\<open>size_t\<close>, the array index \<open>ix + nx * iy\<close> is below \<open>nx * ny\<close>.
\<close>

theorem clamped_index_inside_lattice:
  assumes "0 < nx" "0 < ny"
  shows "fst (cell_index pf opt nx ny x y) < nx \<and> snd (cell_index pf opt nx ny x y) < ny \<and>
         (nx * ny \<le> SIZE_MAX \<longrightarrow> cell_of pf opt nx ny (x, y, z) < nx * ny)"
proof -
  note c = cell_index_lt [OF assms, of pf opt x y]
  have "cell_of pf opt nx ny (x, y, z) =
          flat_index nx (fst (cell_index pf opt nx ny x y)) (snd (cell_index pf opt nx ny x y))"
    by (simp add: cell_of_def split: prod.splits)
  then show ?thesis using c flat_index_lt [of _ nx _ ny] by simp
qed

theorem clamped_index_inside_lattice_witness:
  "(0::nat) < 3 \<and> (3::nat) * 3 \<le> SIZE_MAX \<and>
   cell_index x86_64 (test_options False) 3 3 (Fin 1000000) (Fin (- 1000000)) = (2, 0) \<and>
   fst (cell_index x86_64 (test_options False) 3 3 (Fin 1000000) (Fin (- 1000000))) < 3 \<and>
   snd (cell_index x86_64 (test_options False) 3 3 (Fin 1000000) (Fin (- 1000000))) < 3 \<and>
   cell_of x86_64 (test_options False) 3 3 (Fin 1000000, Fin (- 1000000), Fin 5) < 3 * 3"
  using clamped_index_inside_lattice [of 3 3 x86_64 "test_options False" "Fin 1000000"
      "Fin (- 1000000)" "Fin 5"]
  by (simp add: SIZE_MAX_def cell_index_far)

text \<open>
  C2, amended.  Under the update rule of \<^verbatim>\<open>main\<close> a write to a cell sets its hit flag;
  the first write stores \<open>z\<close>; a later write replaces the stored value if and only if
  \<open>z < current\<close> (minimum mode) or \<open>z > current\<close> (maximum mode).  Consequently, when
  no \<open>z\<close> sent to a cell is NaN, the cell is hit and its final value is \<open>\<le>\<close> every
  \<open>z\<close> sent to it in minimum mode, \<open>\<ge>\<close> in maximum mode.
\<close>

theorem strict_improvement_update:
  assumes "idx < ncell"
  shows
    "(\<forall>st z. length (grid st) = ncell \<and> length (hit st) = ncell \<longrightarrow>
        hit (update_cell fm st idx z) ! idx \<and>
        (\<not> hit st ! idx \<longrightarrow> grid (update_cell fm st idx z) ! idx = z) \<and>
        (hit st ! idx \<longrightarrow>
           grid (update_cell fm st idx z) ! idx =
             (if (if fm then dlt z (grid st ! idx) else dgt z (grid st ! idx)) then z
              else grid st ! idx))) \<and>
     (NaN \<notin> set (routed_z pf opt nx ny idx ps) \<longrightarrow>
        (\<forall>z \<in> set (routed_z pf opt nx ny idx ps).
           hit (process_points pf opt nx ny (init_lattice (find_min opt) ncell) ps) ! idx \<and>
           (if find_min opt
            then dle (grid (process_points pf opt nx ny (init_lattice (find_min opt) ncell) ps) ! idx) z
            else dge (grid (process_points pf opt nx ny (init_lattice (find_min opt) ncell) ps) ! idx) z)))"
proof (intro conjI allI impI ballI)
  fix st :: lattice and z
  assume "length (grid st) = ncell \<and> length (hit st) = ncell"
  then have len: "idx < length (grid st)" "idx < length (hit st)" using assms by auto
  note same = update_cell_same [OF len, of fm z]
  show "hit (update_cell fm st idx z) ! idx" using same by simp
  show "grid (update_cell fm st idx z) ! idx = z" if "\<not> hit st ! idx" using same that by simp
  show "grid (update_cell fm st idx z) ! idx =
          (if (if fm then dlt z (grid st ! idx) else dgt z (grid st ! idx)) then z else grid st ! idx)"
    if "hit st ! idx" using same that by simp
next
  fix z
  assume nn: "NaN \<notin> set (routed_z pf opt nx ny idx ps)"
    and z: "z \<in> set (routed_z pf opt nx ny idx ps)"
  note inv = cell_after_points [OF assms nn, of "find_min opt"]
  from z have ne: "routed_z pf opt nx ny idx ps \<noteq> []" by auto
  show "hit (process_points pf opt nx ny (init_lattice (find_min opt) ncell) ps) ! idx"
    using inv ne by simp
  show "if find_min opt
        then dle (grid (process_points pf opt nx ny (init_lattice (find_min opt) ncell) ps) ! idx) z
        else dge (grid (process_points pf opt nx ny (init_lattice (find_min opt) ncell) ps) ! idx) z"
    using inv ne z by (cases "find_min opt") simp_all
qed

theorem strict_improvement_update_witness:
  "(0::nat) < 9 \<and>
   NaN \<notin> set (routed_z x86_64 (test_options False) 3 3 0
       [(Fin 0, Fin 0, Fin 7), (Fin 0, Fin 0, Fin 5), (Fin 0, Fin 0, Fin 9)]) \<and>
   Fin 9 \<in> set (routed_z x86_64 (test_options False) 3 3 0
       [(Fin 0, Fin 0, Fin 7), (Fin 0, Fin 0, Fin 5), (Fin 0, Fin 0, Fin 9)]) \<and>
   hit (process_points x86_64 (test_options False) 3 3 (init_lattice True 9)
       [(Fin 0, Fin 0, Fin 7), (Fin 0, Fin 0, Fin 5), (Fin 0, Fin 0, Fin 9)]) ! 0 \<and>
   dle (grid (process_points x86_64 (test_options False) 3 3 (init_lattice True 9)
       [(Fin 0, Fin 0, Fin 7), (Fin 0, Fin 0, Fin 5), (Fin 0, Fin 0, Fin 9)]) ! 0) (Fin 9) \<and>
   length (grid (init_lattice True 9)) = 9 \<and> length (hit (init_lattice True 9)) = 9 \<and>
   \<not> hit (init_lattice True 9) ! 0 \<and>
   grid (update_cell True (init_lattice True 9) 0 (Fin 7)) ! 0 = Fin 7"
  using strict_improvement_update [of 0 9 True x86_64 "test_options False" 3 3
      "[(Fin 0, Fin 0, Fin 7), (Fin 0, Fin 0, Fin 5), (Fin 0, Fin 0, Fin 9)]"]
  by (simp add: routed_z_def cell_of_origin init_lattice_def)

theorem strict_improvement_nan_counterexample:
  "Fin 1 \<in> set (routed_z x86_64 (test_options False) 3 3 0 [(Fin 0, Fin 0, NaN), (Fin 0, Fin 0, Fin 1)]) \<and>
   hit (process_points x86_64 (test_options False) 3 3 (init_lattice True 9)
       [(Fin 0, Fin 0, NaN), (Fin 0, Fin 0, Fin 1)]) ! 0 \<and>
   \<not> dle (grid (process_points x86_64 (test_options False) 3 3 (init_lattice True 9)
       [(Fin 0, Fin 0, NaN), (Fin 0, Fin 0, Fin 1)]) ! 0) (Fin 1)"
  by (simp add: routed_z_def cell_of_origin process_points_def process_point_cell_of
      update_cell_def init_lattice_def)

section \<open>NaN\<close>

lemma process_points_Cons:
  "process_points pf opt nx ny st (p # ps) =
     process_points pf opt nx ny (process_point pf opt nx ny st p) ps"
  by (simp add: process_points_def)

lemma length_process_points [simp]:
  "length (grid (process_points pf opt nx ny st ps)) = length (grid st)"
  "length (hit (process_points pf opt nx ny st ps)) = length (hit st)"
  by (induction ps arbitrary: st) (simp_all add: process_points_def process_point_cell_of)

lemma nan_cell_stays:
  assumes "idx < length (grid st)" "idx < length (hit st)" "hit st ! idx" "grid st ! idx = NaN"
  shows "hit (process_points pf opt nx ny st ps) ! idx \<and>
         grid (process_points pf opt nx ny st ps) ! idx = NaN"
  using assms
proof (induction ps arbitrary: st)
  case Nil
  then show ?case by (simp add: process_points_def)
next
  case (Cons p ps)
  let ?st = "process_point pf opt nx ny st p"
  have st: "?st = update_cell (find_min opt) st (cell_of pf opt nx ny p) (snd (snd p))"
    by (rule process_point_cell_of)
  have "hit ?st ! idx \<and> grid ?st ! idx = NaN"
  proof (cases "cell_of pf opt nx ny p = idx")
    case True
    then show ?thesis
      using update_cell_same [OF Cons.prems(1,2), of "find_min opt" "snd (snd p)"] Cons.prems(3,4)
      by (simp add: st dgt_def)
  next
    case False
    then show ?thesis
      using update_cell_other [of idx "cell_of pf opt nx ny p" "find_min opt" st "snd (snd p)"]
        Cons.prems(3,4) by (simp add: st)
  qed
  moreover have "idx < length (grid ?st)" "idx < length (hit ?st)"
    using Cons.prems(1,2) by (simp_all add: st)
  ultimately show ?case using Cons.IH [of ?st] by (simp add: process_points_Cons)
qed

lemma first_nan_sticks:
  assumes "idx < length (grid st)" "idx < length (hit st)" "\<not> hit st ! idx"
    and "routed_z pf opt nx ny idx ps = NaN # zs"
  shows "hit (process_points pf opt nx ny st ps) ! idx \<and>
         grid (process_points pf opt nx ny st ps) ! idx = NaN"
  using assms
proof (induction ps arbitrary: st)
  case Nil
  then show ?case by (simp add: routed_z_def)
next
  case (Cons p ps)
  let ?st = "process_point pf opt nx ny st p"
  have st: "?st = update_cell (find_min opt) st (cell_of pf opt nx ny p) (snd (snd p))"
    by (rule process_point_cell_of)
  have len: "idx < length (grid ?st)" "idx < length (hit ?st)"
    using Cons.prems(1,2) by (simp_all add: st)
  show ?case
  proof (cases "cell_of pf opt nx ny p = idx")
    case True
    then have z: "snd (snd p) = NaN" using Cons.prems(4) by (simp add: routed_z_def)
    have "hit ?st ! idx \<and> grid ?st ! idx = NaN"
      using update_cell_same [OF Cons.prems(1,2), of "find_min opt" "snd (snd p)"] Cons.prems(3) True z
      by (simp add: st)
    then show ?thesis using nan_cell_stays [OF len, of pf opt nx ny ps]
      by (simp add: process_points_Cons)
  next
    case False
    then have r: "routed_z pf opt nx ny idx ps = NaN # zs"
      using Cons.prems(4) by (simp add: routed_z_def)
    have "\<not> hit ?st ! idx"
      using update_cell_other [of idx "cell_of pf opt nx ny p" "find_min opt" st "snd (snd p)"]
        False Cons.prems(3) by (simp add: st)
    then show ?thesis using Cons.IH [OF len _ r] by (simp add: process_points_Cons)
  qed
qed

lemma init_lattice_fields [simp]:
  "grid (init_lattice fm n) = replicate n (if fm then PInf else NInf)"
  "hit (init_lattice fm n) = replicate n False"
  by (simp_all add: init_lattice_def)

lemma write_results_row:
  assumes "ix < nx" "iy < ny" "hit st ! flat_index nx ix iy"
  shows "(fadd (xmin opt) (fmul (double_of_size ix) (inc opt)),
          fadd (ymin opt) (fmul (double_of_size iy) (inc opt)),
          grid st ! flat_index nx ix iy) \<in> set (write_results opt nx ny st)"
  using assms by (force simp: write_results_def Let_def)

text \<open>
  C10.  If the first point sent to the cell \<open>(ix, iy)\<close> carries \<open>z = NaN\<close>, then after
  the whole input, in minimum and in maximum mode and whatever values follow, the cell is
  hit, its stored value is NaN, and the output loop writes its row with \<open>z = NaN\<close>.
\<close>

theorem first_nan_is_kept_and_written:
  assumes "ix < nx" "iy < ny" "flat_index nx ix iy < ncell"
    and "routed_z pf opt nx ny (flat_index nx ix iy) ps = NaN # zs"
  shows
    "hit (process_points pf opt nx ny (init_lattice (find_min opt) ncell) ps) ! flat_index nx ix iy \<and>
     grid (process_points pf opt nx ny (init_lattice (find_min opt) ncell) ps) ! flat_index nx ix iy = NaN \<and>
     (fadd (xmin opt) (fmul (double_of_size ix) (inc opt)),
      fadd (ymin opt) (fmul (double_of_size iy) (inc opt)), NaN)
     \<in> set (write_results opt nx ny
           (process_points pf opt nx ny (init_lattice (find_min opt) ncell) ps))"
proof -
  let ?idx = "flat_index nx ix iy"
  let ?ini = "init_lattice (find_min opt) ncell"
  let ?st = "process_points pf opt nx ny ?ini ps"
  have "?idx < length (grid ?ini)" "?idx < length (hit ?ini)" "\<not> hit ?ini ! ?idx"
    using assms(3) by simp_all
  then have k: "hit ?st ! ?idx \<and> grid ?st ! ?idx = NaN"
    using assms(4) by (rule first_nan_sticks)
  then have "hit ?st ! ?idx" by simp
  from write_results_row [OF assms(1,2) this, of opt] k show ?thesis by simp
qed

theorem first_nan_is_kept_and_written_witness:
  "(0::nat) < 3 \<and> flat_index 3 0 0 < 9 \<and>
   routed_z x86_64 (test_options False) 3 3 (flat_index 3 0 0)
     [(Fin 0, Fin 0, NaN), (Fin 0, Fin 0, Fin (- 1000000)), (Fin 0, Fin 0, NInf)] =
     NaN # [Fin (- 1000000), NInf] \<and>
   grid (process_points x86_64 (test_options False) 3 3 (init_lattice True 9)
     [(Fin 0, Fin 0, NaN), (Fin 0, Fin 0, Fin (- 1000000)), (Fin 0, Fin 0, NInf)]) ! 0 = NaN \<and>
   (Fin 0, Fin 0, NaN) \<in> set (write_results (test_options False) 3 3
     (process_points x86_64 (test_options False) 3 3 (init_lattice True 9)
       [(Fin 0, Fin 0, NaN), (Fin 0, Fin 0, Fin (- 1000000)), (Fin 0, Fin 0, NInf)]))"
proof -
  have f: "flat_index 3 0 0 = 0" by (simp add: flat_index_def)
  have r: "routed_z x86_64 (test_options False) 3 3 0
     [(Fin 0, Fin 0, NaN), (Fin 0, Fin 0, Fin (- 1000000)), (Fin 0, Fin 0, NInf)] =
     NaN # [Fin (- 1000000), NInf]" by (simp add: routed_z_def cell_of_origin)
  show ?thesis
    using first_nan_is_kept_and_written [where ix = 0 and nx = 3 and iy = 0 and ny = 3
        and ncell = 9 and pf = x86_64 and opt = "test_options False"
        and ps = "[(Fin 0, Fin 0, NaN), (Fin 0, Fin 0, Fin (- 1000000)), (Fin 0, Fin 0, NInf)]"
        and zs = "[Fin (- 1000000), NInf]"]
    by (simp add: f r double_of_size_def)
qed

section \<open>Options the program does not know; the Tcl update\<close>

lemmas strtod_eval = strtod_def scan_sign_def scan_number_def scan_radix_def scan_mantissa_def
  scan_exponent_def scan_special_def digit_of_def hex_digit_of_def to_lower_def is_space_def
  nat_of_digits_def is_tag_char_def Let_def pow2_def

lemma strtod_0: "strtod ''0'' = Converted (Fin 0) [] False"
  by (simp add: strtod_eval)

lemma strtod_1: "strtod ''1'' = Converted (Fin 1) [] False"
  by (simp add: strtod_eval)

lemma strtod_2: "strtod ''2'' = Converted (Fin 2) [] False"
  by (simp add: strtod_eval rnd_numeral)

lemma strtod_5: "strtod ''5'' = Converted (Fin 5) [] False"
  by (simp add: strtod_eval rnd_numeral)

lemma strtod_5_0: "strtod ''5.0'' = Converted (Fin 5) [] False"
  by (simp add: strtod_eval rnd_numeral)

lemma strtod_1e10: "strtod ''1e10'' = Converted (Fin 10000000000) [] False"
  by (simp add: strtod_eval rnd_numeral)

lemma parse_region_test: "parse_region strtod ''-R0/2/0/2'' = Some (Fin 0, Fin 2, Fin 0, Fin 2)"
  by (simp add: parse_region_def converted_value_def strtod_0 strtod_2)

lemma set_increment_test: "set_increment strtod opt ''1'' = Inr (opt\<lparr>inc := Fin 1\<rparr>)"
  by (simp add: set_increment_def parse_double_arg_def converted_value_def strtod_1)

text \<open>
  C6.  \<^verbatim>\<open>parse_args\<close> has no branch for \<^verbatim>\<open>--gmtbin\<close>: the argument reaches the
  test \<^verbatim>\<open>a[0] == '-'\<close> and the program exits with \<^verbatim>\<open>Unknown option\<close>, for any
  arguments before and after it that parse, and in particular on the third run of
  \<^verbatim>\<open>test_blockminmax.sh\<close>.  No gridline-registration mapping is ever computed.
\<close>

theorem gmtbin_is_unknown_option:
  "parse_loop sd opt (''--gmtbin'' # rest) = Inl (Unknown_Option ''--gmtbin'') \<and>
   main pf strtod ev test_args_gmt = Inl (Unknown_Option ''--gmtbin'')"
  by (simp add: main_def parse_args_def test_args_gmt_def parse_region_test set_increment_test
      initial_options_def)

text \<open>
  C7.  \<^verbatim>\<open>parse_args\<close> has no branch for \<^verbatim>\<open>--tclfmt\<close> either: the second run of
  \<^verbatim>\<open>test_blockminmax.sh\<close> exits with \<^verbatim>\<open>Unknown option\<close>, and no legacy formatting
  of an output line exists.
\<close>

theorem tclfmt_is_unknown_option:
  "parse_loop sd opt (''--tclfmt'' # rest) = Inl (Unknown_Option ''--tclfmt'') \<and>
   main pf strtod ev test_args_tcllike = Inl (Unknown_Option ''--tclfmt'')"
  by (simp add: main_def parse_args_def test_args_tcllike_def parse_region_test set_increment_test
      initial_options_def)

lemma tcl_number_5: "tcl_number ''5'' = Some (Fin 5)"
  by (simp add: tcl_number_def strtod_5)

lemma tcl_number_5_0: "tcl_number ''5.0'' = Some (Fin 5)"
  by (simp add: tcl_number_def strtod_5_0)

lemma tcl_number_1e10: "tcl_number ''1e10'' = Some (Fin 10000000000)"
  by (simp add: tcl_number_def strtod_1e10)

text \<open>
  C8, amended.  Without \<^verbatim>\<open>-FIXMIN\<close>, for numeric tokens: in minimum mode the script
  replaces the stored token if and only if \<open>z < current\<close> or \<open>z > current\<close>; in maximum
  mode if and only if \<open>z > current\<close>.  A tie replaces nothing in either mode.
\<close>

theorem tcl_legacy_update:
  assumes "num z = Some v" "num (ar k) = Some c"
  shows "tcl_update num False True ar k z = (if dlt v c \<or> dgt v c then ar(k := z) else ar) \<and>
         tcl_update num False False ar k z = (if dgt v c then ar(k := z) else ar)"
  using assms by (simp add: tcl_update_def tcl_less_def tcl_greater_def dgt_def)

theorem tcl_legacy_update_witness:
  "tcl_number ''5'' = Some (Fin 5) \<and> tcl_number (tcl_preset True ''0.0,0.0'') = Some (Fin 10000000000) \<and>
   tcl_update tcl_number False True (tcl_preset True) ''0.0,0.0'' ''5'' ''0.0,0.0'' = ''5''"
  using tcl_legacy_update [of tcl_number "''5''" "Fin 5" "tcl_preset True" "''0.0,0.0''" "Fin 10000000000"]
  by (simp add: tcl_number_5 tcl_number_1e10 tcl_preset_def dgt_def)

theorem tcl_legacy_tie_counterexample:
  "tcl_number ''5'' = Some (Fin 5) \<and> tcl_number ''5.0'' = Some (Fin 5) \<and>
   tcl_update tcl_number False True ((tcl_preset True)(''0.0,0.0'' := ''5'')) ''0.0,0.0'' ''5.0'' ''0.0,0.0'' = ''5'' \<and>
   tcl_update tcl_number False False ((tcl_preset False)(''0.0,0.0'' := ''5'')) ''0.0,0.0'' ''5.0'' ''0.0,0.0'' = ''5''"
  by (simp add: tcl_number_5 tcl_number_5_0 tcl_update_def tcl_less_def tcl_greater_def)

section \<open>The default run of the test\<close>

lemma rnd_neg_049: "rnd (- (49 / 100)) = Fin (- (2206763817411543 / 4503599627370496))"
  by (rule rnd_nearI [where e = "- 2" and m = "- 8827055269646172"]) (simp_all add: pow2_def)

lemma rnd_049: "rnd (49 / 100) = Fin (2206763817411543 / 4503599627370496)"
  by (rule rnd_nearI [where e = "- 2" and m = "8827055269646172"]) (simp_all add: pow2_def)

lemma rnd_149: "rnd (149 / 100) = Fin (6710363444782039 / 4503599627370496)"
  by (rule rnd_nearI [where e = 0 and m = "6710363444782039"]) (simp_all add: pow2_def)

lemma rnd_half: "rnd (1 / 2) = Fin (1 / 2)"
  by (rule rnd_exactI [where m = 1 and k = "- 1"]) (simp_all add: pow2_def)

lemma rnd_five_halves: "rnd (5 / 2) = Fin (5 / 2)"
  by (rule rnd_exactI [where m = 5 and k = "- 1"]) (simp_all add: pow2_def)

lemma rnd_d049: "rnd (2206763817411543 / 4503599627370496) = Fin (2206763817411543 / 4503599627370496)"
  by (rule rnd_exactI [where m = 2206763817411543 and k = "- 52"]) (simp_all add: pow2_def)

lemma rnd_neg_d049:
  "rnd (- (2206763817411543 / 4503599627370496)) = Fin (- (2206763817411543 / 4503599627370496))"
  by (rule rnd_exactI [where m = "- 2206763817411543" and k = "- 52"]) (simp_all add: pow2_def)

lemma rnd_d149: "rnd (6710363444782039 / 4503599627370496) = Fin (6710363444782039 / 4503599627370496)"
  by (rule rnd_exactI [where m = 6710363444782039 and k = "- 52"]) (simp_all add: pow2_def)

lemmas rnd_test = rnd_neg_049 rnd_049 rnd_149 rnd_half rnd_five_halves rnd_d049 rnd_neg_d049
  rnd_d149 rnd_numeral

lemma test_lines:
  "fgets_all 16383 [] test_data =
     [''-0.49 -0.49 5'' @ [CHR 0x0A], ''0.5   0.5   10'' @ [CHR 0x0A],
      ''2.0   2.0   9'' @ [CHR 0x0A], ''1.49  0.49  7'' @ [CHR 0x0A]]"
  by (simp add: test_data_def)

lemma parse_line_1: "parse_line strtod (''-0.49 -0.49 5'' @ [CHR 0x0A]) = Some point_A"
  by (simp add: parse_line_def strtod_eval rnd_test point_A_def point_B_def point_C_def point_D_def)

lemma parse_line_2: "parse_line strtod (''0.5   0.5   10'' @ [CHR 0x0A]) = Some point_B"
  by (simp add: parse_line_def strtod_eval rnd_test point_A_def point_B_def point_C_def point_D_def)

lemma parse_line_3: "parse_line strtod (''2.0   2.0   9'' @ [CHR 0x0A]) = Some point_C"
  by (simp add: parse_line_def strtod_eval rnd_test point_A_def point_B_def point_C_def point_D_def)

lemma parse_line_4: "parse_line strtod (''1.49  0.49  7'' @ [CHR 0x0A]) = Some point_D"
  by (simp add: parse_line_def strtod_eval rnd_test point_A_def point_B_def point_C_def point_D_def)


lemma fdiv_fsub_unit: "rnd q = Fin q \<Longrightarrow> fdiv (fsub (Fin q) (Fin 0)) (Fin 1) = Fin q"
  by (simp add: fsub_def)

lemma snap_default_unit:
  assumes "rnd q = Fin q" "round_half_away q = i" "- (2 ^ 63) \<le> i" "i < 2 ^ 63"
  shows "snap pf False (Fin q) (Fin 0) (Fin 1) = i"
  using assms by (simp add: snap_def fdiv_fsub_unit llround_Fin)

lemma snap_default_neg_d049: "snap pf False (Fin (- (2206763817411543 / 4503599627370496))) (Fin 0) (Fin 1) = 0"
  by (rule snap_default_unit) (simp_all add: rnd_test round_half_away_def)

lemma snap_default_d049: "snap pf False (Fin (2206763817411543 / 4503599627370496)) (Fin 0) (Fin 1) = 0"
  by (rule snap_default_unit) (simp_all add: rnd_test round_half_away_def)

lemma snap_default_d149: "snap pf False (Fin (6710363444782039 / 4503599627370496)) (Fin 0) (Fin 1) = 1"
  by (rule snap_default_unit) (simp_all add: rnd_test round_half_away_def)

lemma snap_default_half: "snap pf False (Fin (1 / 2)) (Fin 0) (Fin 1) = 1"
  by (rule snap_default_unit) (simp_all add: rnd_test round_half_away_def)

lemma snap_default_2: "snap pf False (Fin 2) (Fin 0) (Fin 1) = 2"
  by (rule snap_default_unit) (simp_all add: rnd_test round_half_away_def)

lemmas snap_default_test = snap_default_neg_d049 snap_default_d049 snap_default_d149
  snap_default_half snap_default_2

lemma clamp_small:
  "to_size_t (clamp_index 0 3) = 0" "to_size_t (clamp_index 1 3) = 1" "to_size_t (clamp_index 2 3) = 2"
  by (simp_all add: clamp_index_def to_size_t_def)

lemma cell_of_test_default:
  "cell_of pf (test_options False) 3 3 point_A = 0"
  "cell_of pf (test_options False) 3 3 point_B = 4"
  "cell_of pf (test_options False) 3 3 point_C = 8"
  "cell_of pf (test_options False) 3 3 point_D = 1"
  by (simp_all add: cell_of_def cell_index_def point_A_def point_B_def point_C_def point_D_def
      snap_default_test clamp_small flat_index_def)

lemma replicate_9: "replicate 9 x = [x, x, x, x, x, x, x, x, x]"
  by (simp add: numeral_eq_Suc)

lemma test_final_default:
  "process_points pf (test_options False) 3 3 (init_lattice True 9) test_points =
     \<lparr>grid = [Fin 5, Fin 7, PInf, PInf, Fin 10, PInf, PInf, PInf, Fin 9],
      hit = [True, True, False, False, True, False, False, False, True]\<rparr>"
proof -
  have z: "snd (snd point_A) = Fin 5" "snd (snd point_B) = Fin 10"
    "snd (snd point_C) = Fin 9" "snd (snd point_D) = Fin 7"
    by (simp_all add: point_A_def point_B_def point_C_def point_D_def)
  show ?thesis
    by (simp add: test_points_def process_points_def process_point_cell_of cell_of_test_default z
        update_cell_def replicate_9)
qed

lemma test_occupied_default:
  "occupied_cells 3 3 \<lparr>grid = [Fin 5, Fin 7, PInf, PInf, Fin 10, PInf, PInf, PInf, Fin 9],
      hit = [True, True, False, False, True, False, False, False, True]\<rparr> =
   [(0, 0, Fin 5), (1, 0, Fin 7), (1, 1, Fin 10), (2, 2, Fin 9)]"
  by (simp add: occupied_cells_def flat_index_def upt_conv_Cons)

lemma test_written_default:
  "write_results (test_options tcl) 3 3
     \<lparr>grid = [Fin 5, Fin 7, PInf, PInf, Fin 10, PInf, PInf, PInf, Fin 9],
      hit = [True, True, False, False, True, False, False, False, True]\<rparr> =
   [(Fin 0, Fin 0, Fin 5), (Fin 1, Fin 0, Fin 7), (Fin 1, Fin 1, Fin 10), (Fin 2, Fin 2, Fin 9)]"
  by (simp add: write_results_def flat_index_def upt_conv_Cons double_of_size_def rnd_numeral)

lemma test_process_lines:
  "process_lines pf strtod opt nx ny st (fgets_all 16383 [] test_data) =
   process_points pf opt nx ny st test_points"
  by (simp only: test_lines process_lines_def process_points_def process_line_def foldl.simps
      parse_line_1 parse_line_2 parse_line_3 parse_line_4 test_points_def option.case)

lemma parse_args_test_default: "parse_args strtod test_args_default = Inr (test_options False)"
  by (simp add: parse_args_def test_args_default_def parse_region_test set_increment_test
      initial_options_def test_options_def dgt_def)

lemma node_count_test: "node_count (Fin 0) (Fin 2) (Fin 1) = Fin 3"
  by (simp add: node_count_def fsub_def rnd_test)

lemma grid_dims_test: "grid_dims pf (test_options tcl) = Inr (3, 3)"
  by (simp add: grid_dims_def node_count_test dge_def size_of_double_def trunc_zero_def)

text \<open>
  C1.  Region \<^verbatim>\<open>0/2/0/2\<close>, increment 1, minimum mode, no \<^verbatim>\<open>--tclround\<close>: the four
  lines of the data set are read as the points A, B, C, D; processed in that order they
  leave exactly the cells \<open>(0,0)\<close> with 5, \<open>(1,0)\<close> with 7, \<open>(1,1)\<close> with 10 and
  \<open>(2,2)\<close> with 9 occupied, and \<^verbatim>\<open>main\<close> writes these four rows, on every platform.
\<close>

theorem test_default_run:
  "main pf strtod test_env test_args_default =
     Inr (''out_default.min'',
          [(Fin 0, Fin 0, Fin 5), (Fin 1, Fin 0, Fin 7), (Fin 1, Fin 1, Fin 10), (Fin 2, Fin 2, Fin 9)]) \<and>
   map (parse_line strtod) (fgets_all 16383 [] test_data) = map Some test_points \<and>
   occupied_cells 3 3 (process_points pf (test_options False) 3 3 (init_lattice True 9) test_points) =
     [(0, 0, Fin 5), (1, 0, Fin 7), (1, 1, Fin 10), (2, 2, Fin 9)]"
proof (intro conjI)
  show "main pf strtod test_env test_args_default =
     Inr (''out_default.min'',
          [(Fin 0, Fin 0, Fin 5), (Fin 1, Fin 0, Fin 7), (Fin 1, Fin 1, Fin 10), (Fin 2, Fin 2, Fin 9)])"
    by (simp add: main_def parse_args_test_default grid_dims_test safe_mul_size_t_def SIZE_MAX_def
        test_env_def test_process_lines test_final_default test_written_default)
  show "map (parse_line strtod) (fgets_all 16383 [] test_data) = map Some test_points"
    by (simp only: test_lines parse_line_1 parse_line_2 parse_line_3 parse_line_4 test_points_def
        list.map)
  show "occupied_cells 3 3 (process_points pf (test_options False) 3 3 (init_lattice True 9) test_points) =
     [(0, 0, Fin 5), (1, 0, Fin 7), (1, 1, Fin 10), (2, 2, Fin 9)]"
    by (simp only: test_final_default test_occupied_default)
qed

section \<open>Ties\<close>

lemma eps_value: "eps = Fin (4951760157141521 / 4951760157141521099596496896)"
  unfolding eps_def
  by (rule rnd_nearI [where e = "- 40" and m = 4951760157141521]) (simp_all add: pow2_def)

lemma half_plus_eps: "fadd (Fin (1 / 2)) eps = Fin (4503599627379503 / 9007199254740992)"
  unfolding eps_value fadd.simps
  by (rule rnd_nearI [where e = "- 1" and m = 4503599627379503]) (simp_all add: pow2_def)

lemma tie_not_above: "dgt (Fin (1 / 2)) (fadd (Fin (1 / 2)) eps) = False"
  by (simp add: half_plus_eps dgt_def)

lemma floor_int_plus_half: "\<lfloor>(of_int k :: rat) + 1 / 2\<rfloor> = k"
  by linarith

lemma round_half_away_tie: "0 \<le> k \<Longrightarrow> round_half_away (of_int k + 1 / 2) = k + 1"
proof -
  assume k: "0 \<le> k"
  then have "(0 :: rat) \<le> of_int k + 1 / 2" by simp
  moreover have "\<lfloor>(of_int k :: rat) + 1 / 2 + 1 / 2\<rfloor> = k + 1" by linarith
  ultimately show ?thesis by (simp add: round_half_away_def)
qed

lemma snap_tie:
  assumes "fdiv (fsub v lo) step = Fin (of_int k + 1 / 2)" "0 \<le> k" "k + 1 < 2 ^ 63"
  shows "snap pf False v lo step = k + 1" "snap pf True v lo step = k"
proof -
  show "snap pf False v lo step = k + 1"
    using assms by (simp add: snap_def llround_Fin round_half_away_tie)
  have f: "dfloor (Fin (of_int k + 1 / 2)) = Fin (of_int k)"
    by (simp add: floor_int_plus_half)
  have "fsub (Fin (of_int k + 1 / 2)) (Fin (of_int k)) = rnd (1 / 2)"
    by (simp add: fsub_def)
  also have "\<dots> = Fin (1 / 2)"
    by (rule rnd_exactI [where m = 1 and k = "- 1"]) (simp_all add: pow2_def)
  finally have frac: "fsub (Fin (of_int k + 1 / 2)) (Fin (of_int k)) = Fin (1 / 2)" .
  have "trunc_zero (of_int k) = k" using assms(2) by (simp add: trunc_zero_def)
  then have "llong_of_double pf (Fin (of_int k)) = k"
    using assms(2,3) by (simp add: llong_of_double_Fin)
  then show "snap pf True v lo step = k"
    using assms(1) by (simp add: snap_def f frac tie_not_above Let_def)
qed

lemma clamp_inside: "0 \<le> i \<Longrightarrow> i < int n \<Longrightarrow> i < 2 ^ 63 \<Longrightarrow> to_size_t (clamp_index i n) = nat i"
  by (simp add: clamp_index_def to_size_t_def)

text \<open>
  C3, amended.  Let the computed cell coordinate \<^verbatim>\<open>(x - xmin) / inc\<close> be exactly
  \<open>k + 1/2\<close> with both nodes \<open>k\<close> and \<open>k + 1\<close> in the lattice.  Then the default
  mapping (\<^verbatim>\<open>llround\<close>) yields the higher index \<open>k + 1\<close>, and the \<^verbatim>\<open>--tclround\<close>
  mapping the lower index \<open>k\<close>; the same holds on the y axis.  (A gridline-registration
  strategy is not part of the program, see C6.)
\<close>

theorem interior_tie:
  assumes "int nx \<le> 2 ^ 63" "int ny \<le> 2 ^ 63"
  shows
    "(fdiv (fsub x (xmin opt)) (inc opt) = Fin (of_int k + 1 / 2) \<and> 0 \<le> k \<and> k + 1 < int nx \<longrightarrow>
        fst (cell_index pf (opt\<lparr>tcl_round := False\<rparr>) nx ny x y) = nat k + 1 \<and>
        fst (cell_index pf (opt\<lparr>tcl_round := True\<rparr>) nx ny x y) = nat k) \<and>
     (fdiv (fsub y (ymin opt)) (inc opt) = Fin (of_int l + 1 / 2) \<and> 0 \<le> l \<and> l + 1 < int ny \<longrightarrow>
        snd (cell_index pf (opt\<lparr>tcl_round := False\<rparr>) nx ny x y) = nat l + 1 \<and>
        snd (cell_index pf (opt\<lparr>tcl_round := True\<rparr>) nx ny x y) = nat l)"
proof (intro conjI impI)
  assume a: "fdiv (fsub x (xmin opt)) (inc opt) = Fin (of_int k + 1 / 2) \<and> 0 \<le> k \<and> k + 1 < int nx"
  then have b: "k + 1 < 2 ^ 63" using assms(1) by linarith
  note s = snap_tie [OF _ _ b, of x "xmin opt" "inc opt" pf]
  show "fst (cell_index pf (opt\<lparr>tcl_round := False\<rparr>) nx ny x y) = nat k + 1"
    using a b s(1) clamp_inside [of "k + 1" nx] by (simp add: cell_index_def nat_add_distrib)
  show "fst (cell_index pf (opt\<lparr>tcl_round := True\<rparr>) nx ny x y) = nat k"
    using a b s(2) clamp_inside [of k nx] by (simp add: cell_index_def)
next
  assume a: "fdiv (fsub y (ymin opt)) (inc opt) = Fin (of_int l + 1 / 2) \<and> 0 \<le> l \<and> l + 1 < int ny"
  then have b: "l + 1 < 2 ^ 63" using assms(2) by linarith
  note s = snap_tie [OF _ _ b, of y "ymin opt" "inc opt" pf]
  show "snd (cell_index pf (opt\<lparr>tcl_round := False\<rparr>) nx ny x y) = nat l + 1"
    using a b s(1) clamp_inside [of "l + 1" ny] by (simp add: cell_index_def nat_add_distrib)
  show "snd (cell_index pf (opt\<lparr>tcl_round := True\<rparr>) nx ny x y) = nat l"
    using a b s(2) clamp_inside [of l ny] by (simp add: cell_index_def)
qed


lemma parse_args_test_gmt: "main pf strtod ev test_args_gmt = Inl (Unknown_Option ''--gmtbin'')"
  by (simp add: main_def parse_args_def test_args_gmt_def parse_region_test set_increment_test
      initial_options_def)

lemma ceiling_rat_neg_one [simp]: "\<lceil>- 1 :: rat\<rceil> = - 1"
  using ceiling_of_int [of "- 1", where ?'a = rat] by simp

lemma rnd_neg_half: "rnd (- (1 / 2)) = Fin (- (1 / 2))"
  by (rule rnd_exactI [where m = "- 1" and k = "- 1"]) (simp_all add: pow2_def)

lemma tie_B: "fdiv (fsub (Fin (1 / 2)) (Fin 0)) (Fin 1) = Fin (of_int 0 + 1 / 2)"
  by (simp add: fdiv_fsub_unit rnd_half)

theorem interior_tie_witness:
  "int 3 \<le> 2 ^ 63 \<and>
   fdiv (fsub (Fin (1 / 2)) (xmin (test_options False))) (inc (test_options False)) = Fin (of_int 0 + 1 / 2) \<and>
   (0::int) + 1 < int 3 \<and>
   cell_index x86_64 ((test_options False)\<lparr>tcl_round := False\<rparr>) 3 3 (Fin (1 / 2)) (Fin (1 / 2)) = (1, 1) \<and>
   cell_index x86_64 ((test_options False)\<lparr>tcl_round := True\<rparr>) 3 3 (Fin (1 / 2)) (Fin (1 / 2)) = (0, 0)"
  using interior_tie [where nx = 3 and ny = 3 and x = "Fin (1 / 2)" and y = "Fin (1 / 2)"
      and opt = "test_options False" and k = 0 and l = 0 and pf = x86_64] tie_B
  by (simp add: prod_eq_iff)

lemma snap_upper_edge:
  "snap pf False (Fin (5 / 2)) (Fin 0) (Fin 1) = 3" "snap pf True (Fin (5 / 2)) (Fin 0) (Fin 1) = 2"
proof -
  have "fdiv (fsub (Fin (5 / 2)) (Fin 0)) (Fin 1) = Fin (of_int 2 + 1 / 2)"
    by (simp add: fdiv_fsub_unit rnd_five_halves)
  from snap_tie [OF this, of pf]
  show "snap pf False (Fin (5 / 2)) (Fin 0) (Fin 1) = 3" "snap pf True (Fin (5 / 2)) (Fin 0) (Fin 1) = 2"
    by simp_all
qed

lemma snap_lower_edge:
  "snap pf False (Fin (- (1 / 2))) (Fin 0) (Fin 1) = - 1"
  "snap pf True (Fin (- (1 / 2))) (Fin 0) (Fin 1) = - 1"
proof -
  have t: "fdiv (fsub (Fin (- (1 / 2))) (Fin 0)) (Fin 1) = Fin (- (1 / 2))"
    by (simp add: fdiv_fsub_unit rnd_neg_half)
  have "round_half_away (- (1 / 2)) = - 1" by (simp add: round_half_away_def)
  then show "snap pf False (Fin (- (1 / 2))) (Fin 0) (Fin 1) = - 1"
    by (simp add: snap_def t llround_Fin)
  have "fsub (Fin (- (1 / 2))) (Fin (- 1)) = Fin (1 / 2)" by (simp add: fsub_def rnd_half)
  moreover have "trunc_zero (- 1) = - 1" by (simp add: trunc_zero_def ceiling_def)
  ultimately show "snap pf True (Fin (- (1 / 2))) (Fin 0) (Fin 1) = - 1"
    by (simp add: snap_def t tie_not_above llong_of_double_Fin Let_def)
qed

lemma clamp_edges: "to_size_t (clamp_index 3 3) = 2" "to_size_t (clamp_index (- 1) 3) = 0"
  by (simp_all add: clamp_index_def to_size_t_def to_llong_def)

theorem boundary_tie_counterexample:
  "parse_line strtod ''2.5 -0.5 1'' = Some (Fin (5 / 2), Fin (- (1 / 2)), Fin 1) \<and>
   fdiv (fsub (Fin (5 / 2)) (xmin (test_options False))) (inc (test_options False)) = Fin (5 / 2) \<and>
   fdiv (fsub (Fin (- (1 / 2))) (ymin (test_options False))) (inc (test_options False)) = Fin (- (1 / 2)) \<and>
   cell_index x86_64 (test_options False) 3 3 (Fin (5 / 2)) (Fin (- (1 / 2))) = (2, 0) \<and>
   cell_index x86_64 (test_options True) 3 3 (Fin (5 / 2)) (Fin (- (1 / 2))) = (2, 0) \<and>
   main x86_64 strtod test_env test_args_gmt = Inl (Unknown_Option ''--gmtbin'')"
proof (intro conjI)
  show "parse_line strtod ''2.5 -0.5 1'' = Some (Fin (5 / 2), Fin (- (1 / 2)), Fin 1)"
    by (simp add: parse_line_def strtod_eval rnd_five_halves rnd_neg_half)
  show "fdiv (fsub (Fin (5 / 2)) (xmin (test_options False))) (inc (test_options False)) = Fin (5 / 2)"
    by (simp add: fdiv_fsub_unit rnd_five_halves)
  show "fdiv (fsub (Fin (- (1 / 2))) (ymin (test_options False))) (inc (test_options False)) = Fin (- (1 / 2))"
    by (simp add: fdiv_fsub_unit rnd_neg_half)
  show "cell_index x86_64 (test_options False) 3 3 (Fin (5 / 2)) (Fin (- (1 / 2))) = (2, 0)"
    by (simp add: cell_index_def snap_upper_edge snap_lower_edge clamp_edges)
  show "cell_index x86_64 (test_options True) 3 3 (Fin (5 / 2)) (Fin (- (1 / 2))) = (2, 0)"
    by (simp add: cell_index_def snap_upper_edge snap_lower_edge clamp_edges clamp_small)
  show "main x86_64 strtod test_env test_args_gmt = Inl (Unknown_Option ''--gmtbin'')"
    by (rule parse_args_test_gmt)
qed

section \<open>The grid dimensions just below half a step\<close>

lemma rnd_tieI:
  assumes "pow2 e \<le> \<bar>q\<bar>" "\<bar>q\<bar> < pow2 (e + 1)" "- 1022 \<le> e"
    and "q = (of_int m + 1 / 2) * pow2 (e - 52)"
    and "r = of_int (if even m then m else m + 1) * pow2 (e - 52)" "\<bar>r\<bar> < pow2 1024"
  shows "rnd q = Fin r"
proof -
  have "0 < \<bar>q\<bar>" using assms(1) pow2_pos [of e] by linarith
  then have q0: "q \<noteq> 0" by auto
  have "0 < \<bar>q\<bar>" using q0 by simp
  then have il: "ilog2 \<bar>q\<bar> = e" using assms(1,2) by (rule ilog2_unique)
  have "q / pow2 (e - 52) = of_int m + 1 / 2" unfolding assms(4) by simp
  then have "round_half_even (q / pow2 (e - 52)) = (if even m then m else m + 1)"
    by (rule round_half_even_tie)
  then show ?thesis using q0 il assms(3,5,6)
    by (simp add: rnd_def Let_def max_def abs_if split: if_splits)
qed

text \<open>Two well-known doubles: \<^verbatim>\<open>0.1\<close> is \<open>0x3FB999999999999A\<close>, and \<open>2^53 + 1\<close> rounds to \<open>2^53\<close>.\<close>

lemma rnd_one_tenth: "rnd (1 / 10) = Fin (3602879701896397 / 36028797018963968)"
  by (rule rnd_nearI [where e = "- 4" and m = 7205759403792794]) (simp_all add: pow2_def)

lemma rnd_two_53_plus_one: "rnd 9007199254740993 = Fin 9007199254740992"
  by (rule rnd_tieI [where e = 53 and m = 4503599627370496]) (simp_all add: pow2_def)

lemma rnd_below_half_text:
  "rnd (24999999999999997 / 50000000000000000) = Fin (9007199254740991 / 18014398509481984)"
  by (rule rnd_nearI [where e = "- 2" and m = 9007199254740991]) (simp_all add: pow2_def)

lemma rnd_below_half:
  "rnd (9007199254740991 / 18014398509481984) = Fin (9007199254740991 / 18014398509481984)"
  by (rule rnd_exactI [where m = 9007199254740991 and k = "- 54"]) (simp_all add: pow2_def)

lemma below_half_plus_half: "rnd (18014398509481983 / 18014398509481984) = Fin 1"
  by (rule rnd_tieI [where e = "- 1" and m = 9007199254740991]) (simp_all add: pow2_def)

lemma node_count_below_half:
  "node_count (Fin 0) (Fin (9007199254740991 / 18014398509481984)) (Fin 1) = Fin 2"
  by (simp add: node_count_def fdiv_fsub_unit rnd_below_half below_half_plus_half rnd_numeral)

lemma node_count_unit: "node_count (Fin 0) (Fin 1) (Fin 1) = Fin 2"
proof -
  have "rnd (3 / 2) = Fin (3 / 2)"
    by (rule rnd_exactI [where m = 3 and k = "- 1"]) (simp_all add: pow2_def)
  then show ?thesis by (simp add: node_count_def fsub_def rnd_numeral)
qed

text \<open>
  C5.  The region \<^verbatim>\<open>-R0/0.49999999999999994/0/1\<close> with \<^verbatim>\<open>-I1\<close> is accepted by
  \<^verbatim>\<open>parse_args\<close>; its step count \<^verbatim>\<open>(xmax - xmin) / inc\<close> is the largest double below
  one half, whose nearest integer is 0, so that the claimed \<open>nx\<close> is 1.  The program
  adds \<^verbatim>\<open>0.5\<close> first: the sum \<open>1 - 2^-54\<close> is not a double and rounds to \<open>1.0\<close>
  (ties to even), \<^verbatim>\<open>floor\<close> gives 1 and the program computes \<open>nx = 2\<close>.
\<close>

theorem grid_dims_below_half:
  "parse_args strtod [''-R0/0.49999999999999994/0/1'', ''-I1'', ''-PATH'', ''f.xyz''] =
     Inr (initial_options\<lparr>xmax := Fin (9007199254740991 / 18014398509481984), ymax := Fin 1,
            path := Some ''f.xyz'', out := Some ''f.xyz.min''\<rparr>) \<and>
   fdiv (fsub (Fin (9007199254740991 / 18014398509481984)) (Fin 0)) (Fin 1) =
     Fin (9007199254740991 / 18014398509481984) \<and>
   round_half_away (9007199254740991 / 18014398509481984) + 1 = 1 \<and>
   grid_dims pf (initial_options\<lparr>xmax := Fin (9007199254740991 / 18014398509481984), ymax := Fin 1,
            path := Some ''f.xyz'', out := Some ''f.xyz.min''\<rparr>) = Inr (2, 2)"
proof (intro conjI)
  have "strtod ''0.49999999999999994'' = Converted (Fin (9007199254740991 / 18014398509481984)) [] False"
    by (simp add: strtod_eval rnd_below_half_text)
  then have "parse_region strtod ''-R0/0.49999999999999994/0/1'' =
      Some (Fin 0, Fin (9007199254740991 / 18014398509481984), Fin 0, Fin 1)"
    by (simp add: parse_region_def converted_value_def strtod_0 strtod_1)
  then show "parse_args strtod [''-R0/0.49999999999999994/0/1'', ''-I1'', ''-PATH'', ''f.xyz''] =
     Inr (initial_options\<lparr>xmax := Fin (9007199254740991 / 18014398509481984), ymax := Fin 1,
            path := Some ''f.xyz'', out := Some ''f.xyz.min''\<rparr>)"
    by (simp add: parse_args_def set_increment_test initial_options_def dgt_def)
  show "fdiv (fsub (Fin (9007199254740991 / 18014398509481984)) (Fin 0)) (Fin 1) =
     Fin (9007199254740991 / 18014398509481984)"
    by (simp add: fdiv_fsub_unit rnd_below_half)
  show "round_half_away (9007199254740991 / 18014398509481984) + 1 = 1"
    by (simp add: round_half_away_def)
  show "grid_dims pf (initial_options\<lparr>xmax := Fin (9007199254740991 / 18014398509481984), ymax := Fin 1,
            path := Some ''f.xyz'', out := Some ''f.xyz.min''\<rparr>) = Inr (2, 2)"
    by (simp add: grid_dims_def initial_options_def node_count_below_half node_count_unit dge_def
        size_of_double_def trunc_zero_def)
qed

section \<open>Lines that are skipped\<close>

lemma dropWhile_blank_space:
  "dropWhile is_space (dropWhile (\<lambda>c. c = CHR '' '' \<or> c = CHR 0x09) s) = dropWhile is_space s"
  by (induction s) (auto simp: is_space_def)

lemma scan_number_Nil: "scan_number [] = None"
  by (simp add: scan_number_def scan_radix_def scan_mantissa_def scan_special_def)

lemma scan_number_hash: "scan_number (CHR ''#'' # t) = None"
  by (simp add: scan_number_def scan_radix_def scan_mantissa_def scan_special_def digit_of_def
      to_lower_def)

lemma strtod_no_number:
  assumes "dropWhile is_space s = [] \<or> take 1 (dropWhile is_space s) = ''#''"
  shows "strtod s = No_Conversion"
proof (cases "dropWhile is_space s")
  case Nil
  show ?thesis unfolding strtod_def Nil by (simp add: scan_sign_def scan_number_Nil)
next
  case (Cons c t)
  with assms have c: "c = CHR ''#''" by simp
  show ?thesis unfolding strtod_def Cons c by (simp add: scan_sign_def scan_number_hash)
qed

lemma parse_line_no_number:
  assumes "dropWhile is_space line = [] \<or> take 1 (dropWhile is_space line) = ''#''"
  shows "parse_line strtod line = None"
proof -
  let ?p = "dropWhile (\<lambda>c. c = CHR '' '' \<or> c = CHR 0x09) line"
  have "strtod ?p = No_Conversion"
    by (rule strtod_no_number) (use assms in \<open>simp add: dropWhile_blank_space\<close>)
  then show ?thesis by (simp add: parse_line_def Let_def)
qed

lemma parse_line_Some_iff:
  "parse_line sd line = Some (x, y, z) \<longleftrightarrow>
     (let p = dropWhile (\<lambda>c. c = CHR '' '' \<or> c = CHR 0x09) line
      in p \<noteq> [] \<and> hd p \<noteq> CHR 0x0A \<and> hd p \<noteq> CHR ''#'' \<and>
         (\<exists>p1 p2 p3. sd p = Converted x p1 False \<and> sd p1 = Converted y p2 False \<and>
            sd p2 = Converted z p3 False))"
  by (auto simp: parse_line_def Let_def split: strtod_result.splits if_splits)

text \<open>
  What the read loop skips and what it accepts, for one buffer of \<^verbatim>\<open>fgets\<close>: a line of
  white space only, and a line
  whose first character after white space is \<^verbatim>\<open>#\<close>, is skipped; a skipped line leaves
  both arrays as they are; a line is aggregated, as the point \<open>(x, y, z)\<close>, exactly when
  after its leading blanks and tabs it is not empty, does not start with a newline or
  \<^verbatim>\<open>#\<close>, and three conversions by \<^verbatim>\<open>strtod\<close>, each starting where the one before
  stopped, yield \<open>x\<close>, \<open>y\<close> and \<open>z\<close> without a range error.  The first two
  statements are about the model \<open>strtod\<close>, the others hold for any \<open>sd\<close>.
\<close>

lemma line_filter:
  "(dropWhile is_space line = [] \<or> take 1 (dropWhile is_space line) = ''#'' \<longrightarrow>
      parse_line strtod line = None) \<and>
   (parse_line sd line = None \<longrightarrow> process_line pf sd opt nx ny st line = st) \<and>
   (parse_line sd line = Some (x, y, z) \<longleftrightarrow>
      (let p = dropWhile (\<lambda>c. c = CHR '' '' \<or> c = CHR 0x09) line
       in p \<noteq> [] \<and> hd p \<noteq> CHR 0x0A \<and> hd p \<noteq> CHR ''#'' \<and>
          (\<exists>p1 p2 p3. sd p = Converted x p1 False \<and> sd p1 = Converted y p2 False \<and>
             sd p2 = Converted z p3 False))) \<and>
   (parse_line sd line = Some (x, y, z) \<longrightarrow>
      process_line pf sd opt nx ny st line = process_point pf opt nx ny st (x, y, z))"
proof (intro conjI impI)
  assume "dropWhile is_space line = [] \<or> take 1 (dropWhile is_space line) = ''#''"
  then show "parse_line strtod line = None" by (rule parse_line_no_number)
next
  assume "parse_line sd line = None"
  then show "process_line pf sd opt nx ny st line = st" by (simp add: process_line_def)
next
  show "parse_line sd line = Some (x, y, z) \<longleftrightarrow>
      (let p = dropWhile (\<lambda>c. c = CHR '' '' \<or> c = CHR 0x09) line
       in p \<noteq> [] \<and> hd p \<noteq> CHR 0x0A \<and> hd p \<noteq> CHR ''#'' \<and>
          (\<exists>p1 p2 p3. sd p = Converted x p1 False \<and> sd p1 = Converted y p2 False \<and>
             sd p2 = Converted z p3 False))"
    by (rule parse_line_Some_iff)
next
  assume "parse_line sd line = Some (x, y, z)"
  then show "process_line pf sd opt nx ny st line = process_point pf opt nx ny st (x, y, z)"
    by (simp add: process_line_def)
qed

lemma strtod_7: "strtod ''7'' = Converted (Fin 7) [] False"
  by (simp add: strtod_eval rnd_numeral)

lemma line_filter_examples:
  "dropWhile is_space [CHR '' '', CHR 0x0D, CHR 0x0A] = [] \<and>
   parse_line strtod [CHR '' '', CHR 0x0D, CHR 0x0A] = None \<and>
   take 1 (dropWhile is_space ''  # 1 2 3'') = ''#'' \<and>
   parse_line strtod ''  # 1 2 3'' = None \<and>
   parse_line strtod ''1 x 3'' = None \<and>
   process_line x86_64 strtod (test_options False) 3 3 (init_lattice True 9) ''1 x 3'' =
     init_lattice True 9 \<and>
   parse_line strtod ''0 0 7'' = Some (Fin 0, Fin 0, Fin 7) \<and>
   process_line x86_64 strtod (test_options False) 3 3 (init_lattice True 9) ''0 0 7'' =
     process_point x86_64 (test_options False) 3 3 (init_lattice True 9) (Fin 0, Fin 0, Fin 7)"
proof -
  have a: "parse_line strtod ''1 x 3'' = None"
    by (simp add: parse_line_def strtod_eval)
  have b: "parse_line strtod ''0 0 7'' = Some (Fin 0, Fin 0, Fin 7)"
    by (simp add: parse_line_def strtod_eval rnd_numeral)
  have c: "dropWhile is_space [CHR '' '', CHR 0x0D, CHR 0x0A] = []"
    "take 1 (dropWhile is_space ''  # 1 2 3'') = ''#''"
    by (simp_all add: is_space_def)
  show ?thesis
    using line_filter [where line = "[CHR '' '', CHR 0x0D, CHR 0x0A]" and sd = strtod]
      line_filter [where line = "''  # 1 2 3''" and sd = strtod]
      line_filter [where line = "''1 x 3''" and sd = strtod and pf = x86_64
        and opt = "test_options False" and nx = 3 and ny = 3 and st = "init_lattice True 9"]
      line_filter [where line = "''0 0 7''" and sd = strtod and pf = x86_64
        and opt = "test_options False" and nx = 3 and ny = 3 and st = "init_lattice True 9"
        and x = "Fin 0" and y = "Fin 0" and z = "Fin 7"]
    by (simp only: a b c) simp
qed

text \<open>
  C9.  The line \<^verbatim>\<open>12-3 4\<close> has two whitespace-delimited tokens, the first of which is
  not a number: a malformed record, to be skipped.  The program does not skip it: the
  second conversion starts at the \<^verbatim>\<open>-\<close> where the first one stopped, the line is read
  as the point \<open>(12, -3, 4)\<close> and, on the region of the test, written to cell \<open>(2, 0)\<close>.
\<close>

theorem unseparated_numbers_aggregated:
  "spec_tokens (''12-3 4'' @ [CHR 0x0A]) = [''12-3'', ''4''] \<and>
   parse_line strtod (''12-3 4'' @ [CHR 0x0A]) = Some (Fin 12, Fin (- 3), Fin 4) \<and>
   cell_index x86_64 (test_options False) 3 3 (Fin 12) (Fin (- 3)) = (2, 0) \<and>
   process_line x86_64 strtod (test_options False) 3 3 (init_lattice True 9) (''12-3 4'' @ [CHR 0x0A]) =
     \<lparr>grid = [PInf, PInf, Fin 4, PInf, PInf, PInf, PInf, PInf, PInf],
      hit = [False, False, True, False, False, False, False, False, False]\<rparr>"
proof -
  have t: "spec_tokens (''12-3 4'' @ [CHR 0x0A]) = [''12-3'', ''4'']"
    by (simp add: spec_tokens_def is_space_def)
  have p: "parse_line strtod (''12-3 4'' @ [CHR 0x0A]) = Some (Fin 12, Fin (- 3), Fin 4)"
    by (simp add: parse_line_def strtod_eval rnd_numeral rnd_neg_numeral)
  have "round_half_away 12 = 12" "round_half_away (- 3) = - 3"
    by (simp_all add: round_half_away_def)
  then have s: "snap x86_64 False (Fin 12) (Fin 0) (Fin 1) = 12"
    "snap x86_64 False (Fin (- 3)) (Fin 0) (Fin 1) = - 3"
    by (simp_all add: snap_def fdiv_fsub_unit rnd_numeral rnd_neg_numeral llround_Fin)
  have "to_size_t (clamp_index 12 3) = 2" "to_size_t (clamp_index (- 3) 3) = 0"
    by (simp_all add: clamp_index_def to_size_t_def to_llong_def)
  then have c: "cell_index x86_64 (test_options False) 3 3 (Fin 12) (Fin (- 3)) = (2, 0)"
    by (simp add: cell_index_def s)
  have q: "process_point x86_64 (test_options False) 3 3 (init_lattice True 9) (Fin 12, Fin (- 3), Fin 4) =
     \<lparr>grid = [PInf, PInf, Fin 4, PInf, PInf, PInf, PInf, PInf, PInf],
      hit = [False, False, True, False, False, False, False, False, False]\<rparr>"
    by (simp add: process_point_def c flat_index_def update_cell_def replicate_9)
  show ?thesis using t p c q by (simp add: process_line_def)
qed

end
